(* ===== verification/Prelude.thy ===== *)
theory Prelude
  imports Complex_Main
begin

text \<open>
  Shared vocabulary of the development: the values of JavaScript the program computes with
  and the built-ins it calls, with the generic lemmas the component theories share.
  \<^item> A JavaScript number is a \<open>jsnum\<close>: a finite value (an exact real) or \<open>NaN\<close>.
    Infinities are not modelled: the program never divides by anything but the literal
    \<open>10\<close>, so no operation on finite inputs yields one.
  \<^item> \<open>Math.round\<close> is \<open>js_round\<close>: the nearest integer, ties towards \<open>+\<infinity>\<close>.
  \<^item> \<open>String(n)\<close> for an integer \<open>n\<close> is \<open>show_int\<close>.
  Strings are byte strings (UTF-8), the literals of Isabelle's \<open>string\<close> type.
\<close>

named_theorems js_simps "equations that evaluate the JavaScript built-ins of the model"

section \<open>Numbers\<close>

datatype jsnum = Num real | NaN

text \<open>\<open>Math.round\<close>: the integer nearest to its argument; a tie goes to the larger one.\<close>

definition js_round :: "real \<Rightarrow> int" where
  "js_round x = \<lfloor>x + 1 / 2\<rfloor>"

text \<open>Subtraction of numbers: \<open>NaN\<close> is absorbing.\<close>

fun js_sub :: "jsnum \<Rightarrow> jsnum \<Rightarrow> jsnum" where
  "js_sub (Num a) (Num b) = Num (a - b)"
| "js_sub _ _ = NaN"

declare js_round_def [js_simps]

section \<open>Integers as strings\<close>

definition digit_char :: "nat \<Rightarrow> char" where
  "digit_char d = char_of (48 + d)"

fun show_nat :: "nat \<Rightarrow> string" where
  "show_nat n = (if n < 10 then [digit_char n] else show_nat (n div 10) @ [digit_char (n mod 10)])"

declare show_nat.simps [simp del]

definition show_int :: "int \<Rightarrow> string" where
  "show_int i = (if i < 0 then CHR ''-'' # show_nat (nat (- i)) else show_nat (nat i))"

declare show_int_def [js_simps] digit_char_def [js_simps]

section \<open>Generic lemmas\<close>

subsection \<open>Rounding\<close>

lemma js_round_le: "real_of_int (js_round x) \<le> x + 1 / 2"
  unfolding js_round_def by linarith

lemma js_round_gt: "x - 1 / 2 < real_of_int (js_round x)"
  unfolding js_round_def by linarith

lemma js_round_unique:
  assumes "real_of_int n - 1 / 2 \<le> x" and "x < real_of_int n + 1 / 2"
  shows "js_round x = n"
  unfolding js_round_def using assms by (simp add: floor_eq_iff)

lemma js_round_of_int [simp]: "js_round (real_of_int n) = n"
  by (rule js_round_unique) simp_all

subsection \<open>Digits\<close>

lemma show_nat_not_Nil [simp]: "show_nat n \<noteq> []"
  by (subst show_nat.simps) simp

end
