(* ===== verification/UnitConverter.thy ===== *)
theory UnitConverter
  imports Prelude
begin

text \<open>
  The unit converter of \<^verbatim>\<open>src/src/hooks/useweatherInfo.ts\<close>, line 4:
  \<^verbatim>\<open>const toCelsius = (k: number) => Math.round((k - 273.15) * 10) / 10;\<close>
  \<open>toCelsius\<close> maps a Kelvin reading to Celsius rounded to one decimal. The lemmas show
  that the result is exactly the nearest tenth with ties upward (the abstract
  specification \<open>nearest_tenth\<close> of spec 4.1, which it refines), and that a \<open>NaN\<close> input
  (a missing field of the provider's answer) stays \<open>NaN\<close>.
\<close>

definition toCelsius :: "jsnum \<Rightarrow> jsnum" where
  "toCelsius k = (case k of
       Num x \<Rightarrow> Num (real_of_int (js_round ((x - 273.15) * 10)) / 10)
     | NaN \<Rightarrow> NaN)"

text \<open>
  The abstract contract (spec 4.1): the Celsius value is the multiple of one tenth nearest
  to \<open>k - 273.15\<close>, a tie going to the larger multiple.
\<close>

definition nearest_tenth :: "real \<Rightarrow> real \<Rightarrow> bool" where
  "nearest_tenth x c \<longleftrightarrow> (\<exists>n::int. c = real_of_int n / 10 \<and>
       real_of_int n / 10 - 1 / 20 \<le> x \<and> x < real_of_int n / 10 + 1 / 20)"

lemma toCelsius_Num: "toCelsius (Num k) = Num (real_of_int (js_round ((k - 273.15) * 10)) / 10)"
  by (simp add: toCelsius_def)

lemma toCelsius_NaN [simp]: "toCelsius NaN = NaN"
  by (simp add: toCelsius_def)

lemma js_round_tenths_bounds:
  "real_of_int (js_round (x * 10)) / 10 - 1 / 20 \<le> x \<and> x < real_of_int (js_round (x * 10)) / 10 + 1 / 20"
  using js_round_le [of "x * 10"] js_round_gt [of "x * 10"] by linarith

lemma js_round_tenths_unique:
  "real_of_int n / 10 - 1 / 20 \<le> x \<Longrightarrow> x < real_of_int n / 10 + 1 / 20 \<Longrightarrow> js_round (x * 10) = n"
  by (rule js_round_unique) linarith+

text \<open>
  C7. Refinement of the contract of spec 4.1: \<open>toCelsius\<close> returns exactly the tenth
  nearest to \<open>k - 273.15\<close>, ties rounded upward, and nothing else.
\<close>

theorem toCelsius_refines_nearest_tenth:
  "toCelsius (Num k) = Num c \<longleftrightarrow> nearest_tenth (k - 273.15) c"
proof
  assume "toCelsius (Num k) = Num c"
  then have "c = real_of_int (js_round ((k - 273.15) * 10)) / 10"
    by (simp add: toCelsius_def)
  with js_round_tenths_bounds [of "k - 273.15"] show "nearest_tenth (k - 273.15) c"
    unfolding nearest_tenth_def by blast
next
  assume "nearest_tenth (k - 273.15) c"
  then obtain n :: int where c: "c = real_of_int n / 10"
    and lo: "real_of_int n / 10 - 1 / 20 \<le> k - 273.15"
    and hi: "k - 273.15 < real_of_int n / 10 + 1 / 20"
    unfolding nearest_tenth_def by blast
  from lo hi have "js_round ((k - 273.15) * 10) = n"
    by (rule js_round_tenths_unique)
  with c show "toCelsius (Num k) = Num c"
    by (simp add: toCelsius_def)
qed


end
