(* ===== verification/JS_String.thy ===== *)
theory JS_String
  imports Prelude
begin

text \<open>
  \<open>String.prototype.trim\<close>, which \<^verbatim>\<open>useweatherInfo.ts\<close> (line 12, \<^verbatim>\<open>city.trim()\<close>),
  \<^verbatim>\<open>App.tsx\<close> (line 16) and \<^verbatim>\<open>SearchForm.tsx\<close> (line 37) call. Strings are UTF-8 byte
  strings; the whitespace of ECMAScript (WhiteSpace and LineTerminator: U+0009 to U+000D,
  U+0020, U+00A0, U+1680, U+2000 to U+200A, U+2028, U+2029, U+202F, U+205F, U+3000,
  U+FEFF) is the list \<open>js_ws_seqs\<close> of their UTF-8 encodings. \<open>strip_lead\<close> removes
  encodings from the front while one matches; trimming the end is the same on the
  reversed string. The lemmas show that \<open>js_trim\<close> removes exactly a maximal run of
  whitespace at each end, that it is idempotent, and that it yields the empty string
  exactly on whitespace-only input, which is what the blank-city check of the hook needs.
\<close>

definition js_ws_seqs :: "string list" where
  "js_ws_seqs =
     [[CHR 0x09], [CHR 0x0A], [CHR 0x0B], [CHR 0x0C], [CHR 0x0D], [CHR 0x20],
      [CHR 0xC2, CHR 0xA0],
      [CHR 0xE1, CHR 0x9A, CHR 0x80],
      [CHR 0xE2, CHR 0x80, CHR 0x80], [CHR 0xE2, CHR 0x80, CHR 0x81],
      [CHR 0xE2, CHR 0x80, CHR 0x82], [CHR 0xE2, CHR 0x80, CHR 0x83],
      [CHR 0xE2, CHR 0x80, CHR 0x84], [CHR 0xE2, CHR 0x80, CHR 0x85],
      [CHR 0xE2, CHR 0x80, CHR 0x86], [CHR 0xE2, CHR 0x80, CHR 0x87],
      [CHR 0xE2, CHR 0x80, CHR 0x88], [CHR 0xE2, CHR 0x80, CHR 0x89],
      [CHR 0xE2, CHR 0x80, CHR 0x8A],
      [CHR 0xE2, CHR 0x80, CHR 0xA8], [CHR 0xE2, CHR 0x80, CHR 0xA9],
      [CHR 0xE2, CHR 0x80, CHR 0xAF], [CHR 0xE2, CHR 0x81, CHR 0x9F],
      [CHR 0xE3, CHR 0x80, CHR 0x80], [CHR 0xEF, CHR 0xBB, CHR 0xBF]]"

definition lead_seq :: "string list \<Rightarrow> string \<Rightarrow> string option" where
  "lead_seq ws s = find (\<lambda>w. w \<noteq> [] \<and> take (length w) s = w) ws"

function strip_lead :: "string list \<Rightarrow> string \<Rightarrow> string" where
  "strip_lead ws s =
     (case lead_seq ws s of None \<Rightarrow> s | Some w \<Rightarrow> strip_lead ws (drop (length w) s))"
  by pat_completeness auto
termination
proof (relation "measure (\<lambda>(ws, s). length s)")
  show "wf (measure (\<lambda>(ws, s). length s))" by simp
next
  fix ws :: "string list" and s w :: string
  assume "lead_seq ws s = Some w"
  then have ne: "w \<noteq> []" and tk: "take (length w) s = w"
    unfolding lead_seq_def by (auto simp: find_Some_iff)
  from tk have "length (take (length w) s) = length w" by simp
  then have "length w \<le> length s" by (simp only: length_take min_def split: if_splits)
  with ne show "((ws, drop (length w) s), ws, s) \<in> measure (\<lambda>(ws, s). length s)"
    by (cases w) auto
qed

declare strip_lead.simps [simp del]

definition trim_start :: "string \<Rightarrow> string" where
  "trim_start s = strip_lead js_ws_seqs s"

definition trim_end :: "string \<Rightarrow> string" where
  "trim_end s = rev (strip_lead (map rev js_ws_seqs) (rev s))"

definition js_trim :: "string \<Rightarrow> string" where
  "js_trim s = trim_end (trim_start s)"

text \<open>A run: a concatenation of encodings from a list, the shape of what trim removes.\<close>

inductive seq_run :: "string list \<Rightarrow> string \<Rightarrow> bool" for ws where
  run_nil: "seq_run ws []"
| run_cons: "w \<in> set ws \<Longrightarrow> w \<noteq> [] \<Longrightarrow> seq_run ws r \<Longrightarrow> seq_run ws (w @ r)"

abbreviation ws_run :: "string \<Rightarrow> bool" where
  "ws_run \<equiv> seq_run js_ws_seqs"

declare js_trim_def [js_simps] trim_start_def [js_simps] trim_end_def [js_simps]
  lead_seq_def [js_simps] js_ws_seqs_def [js_simps] strip_lead.simps [js_simps]

section \<open>encodeURIComponent\<close>

text \<open>
  \<open>encodeURIComponent\<close> on the UTF-8 bytes of its argument: the unreserved characters
  \<open>A-Z a-z 0-9 - _ . ! ~ * ' ( )\<close> stay, every other byte becomes \<open>%XX\<close> with two
  upper-case hexadecimal digits. (On a JavaScript string that holds a lone surrogate it
  throws a URIError; a UTF-8 byte string cannot hold one.) \<open>uri_decode\<close> is the
  percent-decoding a server applies to a query value.
\<close>

definition uri_unreserved :: "char \<Rightarrow> bool" where
  "uri_unreserved c \<longleftrightarrow>
     (let n = of_char c :: nat in (65 \<le> n \<and> n \<le> 90) \<or> (97 \<le> n \<and> n \<le> 122) \<or> (48 \<le> n \<and> n \<le> 57)) \<or>
     c \<in> set [CHR ''-'', CHR ''_'', CHR ''.'', CHR ''!'', CHR ''~'', CHR ''*'', CHR 0x27,
                CHR ''('', CHR '')'']"

definition hex_digit :: "nat \<Rightarrow> char" where
  "hex_digit n = (if n < 10 then char_of (48 + n) else char_of (55 + n))"

definition hex_val :: "char \<Rightarrow> nat option" where
  "hex_val c = (let n = of_char c :: nat in
     if 48 \<le> n \<and> n < 58 then Some (n - 48)
     else if 65 \<le> n \<and> n < 71 then Some (n - 55)
     else if 97 \<le> n \<and> n < 103 then Some (n - 87)
     else None)"

definition pct_encode :: "char \<Rightarrow> string" where
  "pct_encode c = [CHR ''%'', hex_digit (of_char c div 16), hex_digit (of_char c mod 16)]"

definition encodeURIComponent :: "string \<Rightarrow> string" where
  "encodeURIComponent s = concat (map (\<lambda>c. if uri_unreserved c then [c] else pct_encode c) s)"

fun uri_decode :: "string \<Rightarrow> string option" where
  "uri_decode [] = Some []"
| "uri_decode (c # cs) =
     (if c = CHR ''%'' then
        (case cs of
           h1 # h2 # rest \<Rightarrow>
             (case (hex_val h1, hex_val h2) of
                (Some a, Some b) \<Rightarrow> map_option (Cons (char_of (16 * a + b))) (uri_decode rest)
              | _ \<Rightarrow> None)
         | _ \<Rightarrow> None)
      else map_option (Cons c) (uri_decode cs))"

declare encodeURIComponent_def [js_simps] uri_unreserved_def [js_simps] pct_encode_def [js_simps]
  hex_digit_def [js_simps]

text \<open>
  No encoding is a proper prefix of another (UTF-8 is a prefix code), so a run of
  whitespace splits into encodings one way only and the greedy strip removes all of it.
\<close>

definition prefix_free :: "string list \<Rightarrow> bool" where
  "prefix_free ws \<longleftrightarrow> (\<forall>a\<in>set ws. \<forall>b\<in>set ws. a \<noteq> [] \<longrightarrow> take (length a) b = a \<longrightarrow> a = b)"

section \<open>Lemmas\<close>

lemma lead_seq_SomeD:
  "lead_seq ws s = Some w \<Longrightarrow> w \<in> set ws \<and> w \<noteq> [] \<and> take (length w) s = w"
  unfolding lead_seq_def by (auto simp: find_Some_iff nth_mem)

lemma lead_seq_None_iff:
  "lead_seq ws s = None \<longleftrightarrow> (\<forall>w\<in>set ws. w \<noteq> [] \<longrightarrow> take (length w) s \<noteq> w)"
  unfolding lead_seq_def by (auto simp: find_None_iff)

lemma strip_lead_None: "lead_seq ws s = None \<Longrightarrow> strip_lead ws s = s"
  by (subst strip_lead.simps) simp

lemma strip_lead_Some:
  "lead_seq ws s = Some w \<Longrightarrow> strip_lead ws s = strip_lead ws (drop (length w) s)"
  by (subst strip_lead.simps) simp

lemma strip_lead_no_lead: "lead_seq ws (strip_lead ws s) = None"
proof (induction ws s rule: strip_lead.induct)
  case (1 ws s)
  then show ?case
    by (cases "lead_seq ws s") (simp_all add: strip_lead_None strip_lead_Some)
qed

lemma strip_lead_idem: "strip_lead ws (strip_lead ws s) = strip_lead ws s"
  by (rule strip_lead_None [OF strip_lead_no_lead])

lemma seq_run_append: "seq_run ws a \<Longrightarrow> seq_run ws b \<Longrightarrow> seq_run ws (a @ b)"
  by (induction rule: seq_run.induct) (auto intro: seq_run.intros)

lemma seq_run_single: "w \<in> set ws \<Longrightarrow> w \<noteq> [] \<Longrightarrow> seq_run ws w"
  using run_cons [of w ws "[]"] run_nil by simp

lemma strip_lead_split: "\<exists>p. s = p @ strip_lead ws s \<and> seq_run ws p"
proof (induction ws s rule: strip_lead.induct)
  case (1 ws s)
  show ?case
  proof (cases "lead_seq ws s")
    case None
    then show ?thesis by (auto simp: strip_lead_None intro: run_nil)
  next
    case (Some w)
    with "1.IH" obtain p where p: "drop (length w) s = p @ strip_lead ws (drop (length w) s)"
      and r: "seq_run ws p" by blast
    from Some have w: "w \<in> set ws" "w \<noteq> []" "take (length w) s = w"
      by (auto dest: lead_seq_SomeD)
    have "s = w @ drop (length w) s" using w(3) by (metis append_take_drop_id)
    with p have "s = (w @ p) @ strip_lead ws s" by (simp add: strip_lead_Some [OF Some])
    moreover from w(1,2) r have "seq_run ws (w @ p)" by (rule run_cons)
    ultimately show ?thesis by blast
  qed
qed

lemma lead_seq_prefix_None: "lead_seq ws (t @ q) = None \<Longrightarrow> lead_seq ws t = None"
proof -
  assume h: "lead_seq ws (t @ q) = None"
  have "take (length w) t \<noteq> w" if "w \<in> set ws" "w \<noteq> []" for w
  proof
    assume tk: "take (length w) t = w"
    then have "length w \<le> length t"
      by (metis length_take min.absorb_iff1 min.commute)
    with tk have "take (length w) (t @ q) = w" by simp
    with h that show False by (auto simp: lead_seq_None_iff)
  qed
  then show ?thesis by (auto simp: lead_seq_None_iff)
qed

lemma seq_run_rev: "seq_run (map rev ws) r \<Longrightarrow> seq_run ws (rev r)"
proof (induction rule: seq_run.induct)
  case run_nil
  show ?case by (simp add: seq_run.run_nil)
next
  case (run_cons w r)
  then have "rev w \<in> set ws" "rev w \<noteq> []" by auto
  then have "seq_run ws (rev w)" by (rule seq_run_single)
  with run_cons.IH show ?case by (simp add: seq_run_append)
qed

lemma trim_end_split: "\<exists>q. s = trim_end s @ q \<and> ws_run q"
proof -
  obtain p where p: "rev s = p @ strip_lead (map rev js_ws_seqs) (rev s)"
    and r: "seq_run (map rev js_ws_seqs) p"
    using strip_lead_split by blast
  from p have "s = trim_end s @ rev p"
    unfolding trim_end_def by (metis rev_append rev_rev_ident)
  moreover from r have "ws_run (rev p)" by (rule seq_run_rev)
  ultimately show ?thesis by blast
qed

lemma trim_start_no_lead: "lead_seq js_ws_seqs (trim_start s) = None"
  unfolding trim_start_def by (rule strip_lead_no_lead)

lemma js_trim_no_lead: "lead_seq js_ws_seqs (js_trim s) = None"
proof -
  obtain q where "trim_start s = trim_end (trim_start s) @ q"
    using trim_end_split by blast
  with trim_start_no_lead [of s] have "lead_seq js_ws_seqs (trim_end (trim_start s) @ q) = None"
    by simp
  then show ?thesis unfolding js_trim_def by (rule lead_seq_prefix_None)
qed

lemma js_trim_no_trail: "lead_seq (map rev js_ws_seqs) (rev (js_trim s)) = None"
  unfolding js_trim_def trim_end_def by (simp add: strip_lead_no_lead)

lemma trim_end_idem: "trim_end (trim_end s) = trim_end s"
  unfolding trim_end_def by (simp add: strip_lead_idem)

lemma prefix_free_js_ws_seqs: "prefix_free js_ws_seqs"
  unfolding prefix_free_def js_ws_seqs_def by code_simp

lemma lead_seq_run:
  assumes pf: "prefix_free ws" and w: "w \<in> set ws" "w \<noteq> []"
  shows "lead_seq ws (w @ r) = Some w"
proof -
  have "lead_seq ws (w @ r) \<noteq> None"
    using w lead_seq_None_iff [of ws "w @ r"] by auto
  then obtain v where v: "lead_seq ws (w @ r) = Some v" by blast
  then have v': "v \<in> set ws" "v \<noteq> []" "take (length v) (w @ r) = v"
    by (auto dest: lead_seq_SomeD)
  show ?thesis
  proof (cases "length v \<le> length w")
    case True
    with v'(3) have "take (length v) w = v" by simp
    with pf v'(1,2) w(1) have "v = w" unfolding prefix_free_def by blast
    with v show ?thesis by simp
  next
    case False
    have "take (length w) v = take (length w) (take (length v) (w @ r))"
      using v'(3) by simp
    also have "\<dots> = w" using False by (simp add: min_def)
    finally have "take (length w) v = w" .
    with pf v'(1) w have "w = v" unfolding prefix_free_def by blast
    with v show ?thesis by simp
  qed
qed

lemma strip_lead_run: "seq_run ws s \<Longrightarrow> prefix_free ws \<Longrightarrow> strip_lead ws s = []"
proof (induction rule: seq_run.induct)
  case run_nil
  show ?case by (simp add: strip_lead_None lead_seq_None_iff)
next
  case (run_cons w r)
  then have "lead_seq ws (w @ r) = Some w" by (simp add: lead_seq_run)
  with run_cons show ?case by (simp add: strip_lead_Some)
qed

lemma trim_end_Nil [simp]: "trim_end [] = []"
  unfolding trim_end_def by (simp add: strip_lead_None lead_seq_None_iff)

text \<open>
  \<open>js_trim\<close> removes a run of whitespace from each end and nothing else, and the run it
  removes is maximal: what remains neither starts nor ends with a whitespace encoding.
\<close>

lemma js_trim_spec:
  "\<exists>p q. s = p @ js_trim s @ q \<and> ws_run p \<and> ws_run q \<and>
     lead_seq js_ws_seqs (js_trim s) = None \<and> lead_seq (map rev js_ws_seqs) (rev (js_trim s)) = None"
proof -
  obtain p where p: "s = p @ trim_start s" and rp: "ws_run p"
    unfolding trim_start_def using strip_lead_split by blast
  obtain q where q: "trim_start s = js_trim s @ q" and rq: "ws_run q"
    unfolding js_trim_def using trim_end_split by blast
  from p q have "s = p @ js_trim s @ q" by simp
  with rp rq js_trim_no_lead js_trim_no_trail show ?thesis by blast
qed

lemma js_trim_idem: "js_trim (js_trim s) = js_trim s"
proof -
  have "trim_start (js_trim s) = js_trim s"
    unfolding trim_start_def by (rule strip_lead_None [OF js_trim_no_lead])
  then show ?thesis by (simp add: js_trim_def trim_end_idem)
qed

lemma js_trim_Nil_iff: "js_trim s = [] \<longleftrightarrow> ws_run s"
proof
  assume "js_trim s = []"
  with js_trim_spec [of s] obtain p q where "s = p @ q" "ws_run p" "ws_run q" by auto
  then show "ws_run s" by (simp add: seq_run_append)
next
  assume "ws_run s"
  then have "trim_start s = []"
    unfolding trim_start_def using prefix_free_js_ws_seqs by (rule strip_lead_run)
  then show "js_trim s = []" by (simp add: js_trim_def)
qed

lemma hex_val_hex_digit [simp]: "n < 16 \<Longrightarrow> hex_val (hex_digit n) = Some n"
  by (auto simp: hex_val_def hex_digit_def Let_def)

lemma char_of_pct [simp]:
  "char_of (16 * (of_char c div 16) + of_char c mod 16 :: nat) = c"
  by simp

lemma uri_decode_pct_encode:
  "uri_decode (pct_encode c @ r) = map_option (Cons c) (uri_decode r)"
proof -
  have "of_char c div 16 < (16::nat)" using nat_of_char_less_256 [of c] by linarith
  moreover have "of_char c mod 16 < (16::nat)" by simp
  ultimately show ?thesis by (simp add: pct_encode_def)
qed

lemma uri_unreserved_not_pct: "uri_unreserved c \<Longrightarrow> c \<noteq> CHR ''%''"
  by (auto simp: uri_unreserved_def)

lemma encodeURIComponent_Cons:
  "encodeURIComponent (c # cs) = (if uri_unreserved c then [c] else pct_encode c) @ encodeURIComponent cs"
  by (simp add: encodeURIComponent_def)

lemma uri_decode_encode: "uri_decode (encodeURIComponent s) = Some s"
proof (induction s)
  case Nil
  show ?case by (simp add: encodeURIComponent_def)
next
  case (Cons c cs)
  show ?case
  proof (cases "uri_unreserved c")
    case True
    then have "c \<noteq> CHR ''%''" by (rule uri_unreserved_not_pct)
    with True Cons.IH show ?thesis by (simp add: encodeURIComponent_Cons)
  next
    case False
    with Cons.IH show ?thesis by (simp add: encodeURIComponent_Cons uri_decode_pct_encode)
  qed
qed

lemma hex_digit_unreserved: "n < 16 \<Longrightarrow> uri_unreserved (hex_digit n)"
  by (auto simp: hex_digit_def uri_unreserved_def Let_def)

lemma encodeURIComponent_chars:
  "c \<in> set (encodeURIComponent s) \<Longrightarrow> uri_unreserved c \<or> c = CHR ''%''"
proof (induction s)
  case Nil
  then show ?case by (simp add: encodeURIComponent_def)
next
  case (Cons x xs)
  have "of_char x div 16 < (16::nat)" using nat_of_char_less_256 [of x] by linarith
  moreover have "of_char x mod 16 < (16::nat)" by simp
  ultimately show ?case
    using Cons hex_digit_unreserved
    by (auto simp: encodeURIComponent_Cons pct_encode_def split: if_splits)
qed

lemma encodeURIComponent_no_delims:
  "CHR ''&'' \<notin> set (encodeURIComponent s) \<and> CHR ''#'' \<notin> set (encodeURIComponent s) \<and>
   CHR ''='' \<notin> set (encodeURIComponent s)"
  using encodeURIComponent_chars [of _ s]
  by (intro conjI notI) (fastforce simp: uri_unreserved_def)+

end
