(* ===== verification/WeatherClient.thy ===== *)
theory WeatherClient
  imports UnitConverter JS_String
begin

text \<open>
  The request and response handling inside \<open>fetchWeatherData\<close> of
  \<^verbatim>\<open>src/src/hooks/useweatherInfo.ts\<close> (lines 12 to 47), apart from the React state
  updates (those are in \<open>SearchState\<close>):
  \<^item> the input check \<open>!city.trim()\<close> (line 12) and the configuration check
    \<open>!API_KEY\<close> (line 23);
  \<^item> the request URL (line 30), with \<open>encodeURIComponent\<close> of \<open>JS_String\<close>;
  \<^item> \<open>response.ok\<close> and the status-to-message mapping (lines 33 to 38);
  \<^item> the normalisation of the provider's answer into a \<open>simpleWeather\<close> (lines 42 to 47).
  The provider's body is untrusted: every field the code reads may be missing (\<open>Absent\<close>,
  JavaScript's \<open>undefined\<close>) or \<open>null\<close>; a present field has the type the TypeScript
  declaration gives it. Reading a property of \<open>undefined\<close> or \<open>null\<close> throws a
  TypeError, whose message is the one of the V8 engine; converting an absent temperature
  gives \<open>NaN\<close>, a null one \<open>0\<close> (JavaScript's \<open>ToNumber\<close>). A field of another JSON
  type than the declared one is not modelled.
  The types \<open>weatherStats\<close> and \<open>simpleWeather\<close> come from
  \<^verbatim>\<open>src/types/weatherStats\<close>, which the repository does not contain; they follow the
  shapes the spec gives (sections 3 and 6).
\<close>

section \<open>Data\<close>

datatype 'a jsfield = Absent | JNull | Val 'a

record sys_info =
  sys_country :: "string jsfield"

record main_info =
  main_temp :: "real jsfield"
  main_feels_like :: "real jsfield"

record weatherStats =
  stats_name :: "string jsfield"
  stats_sys :: "sys_info jsfield"
  stats_main :: "main_info jsfield"

record simpleWeather =
  city :: "string jsfield"
  country :: "string jsfield"
  temp :: jsnum
  feels_like :: jsnum

text \<open>A thrown value: an \<open>Error\<close> object with its message, or anything else.\<close>

datatype thrown = ErrorObj string | NonError

text \<open>
  What the network does for one request: \<open>fetch\<close> rejects, or resolves with a status and
  a body whose \<open>response.json()\<close> either rejects (malformed JSON, a broken stream) or
  yields the parsed value.
\<close>

datatype json_outcome = JsonRejected thrown | JsonParsed "weatherStats jsfield"

datatype fetch_outcome = FetchRejected thrown | FetchResolved int json_outcome

section \<open>Operations\<close>

definition city_missing :: "string \<Rightarrow> bool" where
  "city_missing c \<longleftrightarrow> js_trim c = []"

definition api_key_missing :: "string option \<Rightarrow> bool" where
  "api_key_missing k \<longleftrightarrow> (k = None \<or> k = Some [])"

definition request_url :: "string \<Rightarrow> string \<Rightarrow> string" where
  "request_url c key =
     ''https://api.openweathermap.org/data/2.5/weather?q='' @ encodeURIComponent c @ ''&APPID='' @ key"

definition response_ok :: "int \<Rightarrow> bool" where
  "response_ok st \<longleftrightarrow> 200 \<le> st \<and> st \<le> 299"

definition status_error :: "int \<Rightarrow> string" where
  "status_error st =
     (if st = 404 then ''City not found''
      else if st = 401 then ''Invalid API key''
      else if st = 429 then ''Too many requests, try later''
      else ''Failed to fetch data: '' @ show_int st)"

definition catch_message :: "thrown \<Rightarrow> string" where
  "catch_message e = (case e of ErrorObj m \<Rightarrow> m | NonError \<Rightarrow> ''An unexpected error occurred'')"

text \<open>Reading property \<open>p\<close> of a value that may be \<open>undefined\<close> or \<open>null\<close>.\<close>

definition read_error :: "string \<Rightarrow> string \<Rightarrow> thrown" where
  "read_error what p =
     ErrorObj (''Cannot read properties of '' @ what @ '' (reading '' @ [CHR 0x27] @ p @ [CHR 0x27] @ '')'')"

definition read_prop :: "string \<Rightarrow> 'a jsfield \<Rightarrow> thrown + 'a" where
  "read_prop p v = (case v of
       Absent \<Rightarrow> Inl (read_error ''undefined'' p)
     | JNull \<Rightarrow> Inl (read_error ''null'' p)
     | Val x \<Rightarrow> Inr x)"

definition to_number :: "real jsfield \<Rightarrow> jsnum" where
  "to_number v = (case v of Absent \<Rightarrow> NaN | JNull \<Rightarrow> Num 0 | Val x \<Rightarrow> Num x)"

text \<open>
  Lines 42 to 47, in JavaScript's evaluation order: \<open>result.name\<close>, then
  \<open>result.sys.country\<close>, then \<open>result.main.temp\<close>, then \<open>result.main.feels_like\<close>; the
  first read that throws ends the computation.
\<close>

definition process_stats :: "weatherStats jsfield \<Rightarrow> thrown + simpleWeather" where
  "process_stats res =
     (case read_prop ''name'' res of Inl e \<Rightarrow> Inl e | Inr r \<Rightarrow>
      (case read_prop ''country'' (stats_sys r) of Inl e \<Rightarrow> Inl e | Inr sy \<Rightarrow>
       (case read_prop ''temp'' (stats_main r) of Inl e \<Rightarrow> Inl e | Inr m \<Rightarrow>
        (case read_prop ''feels_like'' (stats_main r) of Inl e \<Rightarrow> Inl e | Inr m' \<Rightarrow>
          Inr \<lparr>city = stats_name r, country = sys_country sy,
               temp = toCelsius (to_number (main_temp m)),
               feels_like = toCelsius (to_number (main_feels_like m'))\<rparr>))))"

text \<open>
  How the provider reads a query parameter (spec section 6): the query is what follows the
  first \<open>?\<close> up to a \<open>#\<close>; it splits at \<open>&\<close>, and a parameter is the first field
  that starts with its name and \<open>=\<close>.
\<close>

fun split_on :: "char \<Rightarrow> string \<Rightarrow> string list" where
  "split_on d [] = [[]]"
| "split_on d (c # cs) =
     (if c = d then [] # split_on d cs
      else (case split_on d cs of w # ws \<Rightarrow> (c # w) # ws | [] \<Rightarrow> [[c]]))"

definition query_string :: "string \<Rightarrow> string" where
  "query_string url = takeWhile (\<lambda>c. c \<noteq> CHR ''#'') (drop 1 (dropWhile (\<lambda>c. c \<noteq> CHR ''?'') url))"

definition query_param :: "string \<Rightarrow> string \<Rightarrow> string option" where
  "query_param name url =
     map_option (drop (Suc (length name)))
       (find (\<lambda>f. take (Suc (length name)) f = name @ ''='') (split_on CHR ''&'' (query_string url)))"

lemmas client_defs = city_missing_def api_key_missing_def request_url_def response_ok_def
  status_error_def catch_message_def read_error_def read_prop_def to_number_def process_stats_def

section \<open>Lemmas\<close>

lemma process_stats_Val:
  "process_stats (Val \<lparr>stats_name = n, stats_sys = Val \<lparr>sys_country = c\<rparr>,
                       stats_main = Val \<lparr>main_temp = t, main_feels_like = f\<rparr>\<rparr>) =
   Inr \<lparr>city = n, country = c, temp = toCelsius (to_number t), feels_like = toCelsius (to_number f)\<rparr>"
  by (simp add: process_stats_def read_prop_def)

lemma split_on_no_delim: "d \<notin> set a \<Longrightarrow> split_on d a = [a]"
  by (induction a) auto

lemma split_on_append_delim:
  "d \<notin> set a \<Longrightarrow> split_on d (a @ d # b) = a # split_on d b"
proof (induction a)
  case Nil
  then show ?case by simp
next
  case (Cons x xs)
  then show ?case by auto
qed

lemma query_string_request_url:
  "query_string (request_url c key) =
     ''q='' @ encodeURIComponent c @ ''&APPID='' @ takeWhile (\<lambda>x. x \<noteq> CHR ''#'') key"
proof -
  have "\<forall>x\<in>set (encodeURIComponent c). x \<noteq> CHR ''#''"
    using encodeURIComponent_no_delims [of c] by blast
  then show ?thesis
    by (simp add: query_string_def request_url_def takeWhile_append2)
qed

lemma city_missing_ws_run: "city_missing c \<longleftrightarrow> ws_run c"
  by (simp add: city_missing_def js_trim_Nil_iff)

lemma read_prop_Inr [simp]: "read_prop p v = Inr x \<longleftrightarrow> v = Val x"
  by (cases v) (simp_all add: read_prop_def)

lemma read_prop_Val [simp]: "read_prop p (Val x) = Inr x"
  by (simp add: read_prop_def)

text \<open>
  C20. The city reaches the provider intact: whatever bytes it holds (\<open>&\<close>, \<open>#\<close>,
  \<open>=\<close>, spaces, non-ASCII), the \<open>q\<close> parameter of the request URL decodes to exactly
  the city the hook was called with.
\<close>

theorem request_city_roundtrip:
  "map_option uri_decode (query_param ''q'' (request_url c key)) = Some (Some c)"
proof -
  have amp: "CHR ''&'' \<notin> set (''q='' @ encodeURIComponent c)"
    using encodeURIComponent_no_delims [of c] by simp
  have "split_on CHR ''&'' (query_string (request_url c key)) =
        (''q='' @ encodeURIComponent c) # split_on CHR ''&'' (''APPID='' @ takeWhile (\<lambda>x. x \<noteq> CHR ''#'') key)"
    using split_on_append_delim [OF amp] by (simp add: query_string_request_url)
  then have "query_param ''q'' (request_url c key) = Some (encodeURIComponent c)"
    by (simp add: query_param_def)
  then show ?thesis by (simp add: uri_decode_encode)
qed

text \<open>
  The normalisation of lines 42 to 47 succeeds exactly when the answer is an object
  whose \<open>sys\<close> and \<open>main\<close> are objects; its result then copies \<open>name\<close> and
  \<open>sys.country\<close> verbatim and converts \<open>main.temp\<close> and \<open>main.feels_like\<close> with
  \<open>toCelsius\<close>. Any other answer makes it throw.
\<close>

lemma process_stats_Inr_iff:
  "process_stats res = Inr d \<longleftrightarrow>
   (\<exists>r sy m. res = Val r \<and> stats_sys r = Val sy \<and> stats_main r = Val m \<and>
      d = \<lparr>city = stats_name r, country = sys_country sy,
           temp = toCelsius (to_number (main_temp m)),
           feels_like = toCelsius (to_number (main_feels_like m))\<rparr>)"
  by (auto simp: process_stats_def split: sum.splits)

lemma process_stats_Inl:
  "process_stats res = Inl e \<Longrightarrow>
   \<exists>what p. e = read_error what p \<and> what \<in> {''undefined'', ''null''} \<and> p \<in> {''name'', ''country'', ''temp''}"
  by (auto simp: process_stats_def read_prop_def split: sum.splits jsfield.splits)

end
