(* ===== verification/SearchState.thy ===== *)
theory SearchState
  imports WeatherClient
begin

text \<open>
  The hook \<open>useWeatherInfo\<close> of \<^verbatim>\<open>src/src/hooks/useweatherInfo.ts\<close>. Its React state
  (lines 7 to 9) is the record \<open>search_state\<close>. \<open>fetchWeatherData\<close> (lines 11 to 55) is
  an async function with two suspension points, \<open>await fetch(...)\<close> (line 29) and
  \<open>await response.json()\<close> (line 40); each synchronous segment between them is one
  operation on the state:
  \<^item> \<open>start_search\<close>: lines 12 to 31, up to the request (or to an early return);
  \<^item> \<open>resume_fetch\<close>: the fetch has settled, lines 33 to 40 with the \<open>catch\<close> and
    \<open>finally\<close> blocks (lines 50 to 54) when it throws;
  \<^item> \<open>resume_json\<close>: the body has been parsed, lines 42 to 54.
  A segment's state setters are batched by React and applied together; as each field is
  set at most once per segment (or twice to the same value), their order does not matter.
  \<open>fetchWeatherData\<close> runs the three segments back to back, as one call does when nothing
  interleaves. \<open>hook_step\<close> is the hook under any interleaving: a new call may start
  while earlier ones wait at an \<open>await\<close>, and pending calls resume in any order, as the
  event loop allows (spec section 5).
\<close>

section \<open>State and segments\<close>

record search_state =
  loading :: bool
  data :: "simpleWeather option"
  error :: "string option"

definition init_search :: search_state where
  "init_search = \<lparr>loading = False, data = None, error = None\<rparr>"

text \<open>Where a pending call waits: for the response to the request, or for its body.\<close>

datatype call_phase = AwaitFetch string | AwaitJson json_outcome

definition start_search :: "string option \<Rightarrow> string \<Rightarrow> search_state \<Rightarrow> search_state \<times> call_phase option" where
  "start_search key c s =
     (if city_missing c then (s\<lparr>error := Some ''Enter a valid City name''\<rparr>, None)
      else
        let s1 = s\<lparr>loading := True, error := None, data := None\<rparr>;
            no_key = (s1\<lparr>error := Some ''Missing API key configuration'', loading := False\<rparr>, None)
        in (case key of
              None \<Rightarrow> no_key
            | Some k \<Rightarrow> if k = [] then no_key else (s1, Some (AwaitFetch (request_url c k)))))"

definition resume_fetch :: "fetch_outcome \<Rightarrow> search_state \<Rightarrow> search_state \<times> call_phase option" where
  "resume_fetch out s =
     (case out of
        FetchRejected e \<Rightarrow> (s\<lparr>error := Some (catch_message e), loading := False\<rparr>, None)
      | FetchResolved st j \<Rightarrow>
          if response_ok st then (s, Some (AwaitJson j))
          else (s\<lparr>error := Some (catch_message (ErrorObj (status_error st))), loading := False\<rparr>, None))"

definition resume_json :: "json_outcome \<Rightarrow> search_state \<Rightarrow> search_state" where
  "resume_json j s =
     (case j of
        JsonRejected e \<Rightarrow> s\<lparr>error := Some (catch_message e), loading := False\<rparr>
      | JsonParsed b \<Rightarrow>
          (case process_stats b of
             Inl e \<Rightarrow> s\<lparr>error := Some (catch_message e), loading := False\<rparr>
           | Inr d \<Rightarrow> s\<lparr>data := Some d, loading := False\<rparr>))"

text \<open>One call run to its end with nothing interleaved.\<close>

definition after_fetch :: "fetch_outcome \<Rightarrow> search_state \<Rightarrow> search_state" where
  "after_fetch out s =
     (case resume_fetch out s of
        (s2, Some (AwaitJson j)) \<Rightarrow> resume_json j s2
      | (s2, _) \<Rightarrow> s2)"

definition fetchWeatherData :: "string option \<Rightarrow> string \<Rightarrow> fetch_outcome \<Rightarrow> search_state \<Rightarrow> search_state" where
  "fetchWeatherData key c out s =
     (case start_search key c s of
        (s1, None) \<Rightarrow> s1
      | (s1, Some _) \<Rightarrow> after_fetch out s1)"

section \<open>Interleaved calls\<close>

record hook_sys =
  hs_state :: search_state
  hs_calls :: "nat \<rightharpoonup> call_phase"
  hs_next :: nat

definition init_sys :: hook_sys where
  "init_sys = \<lparr>hs_state = init_search, hs_calls = Map.empty, hs_next = 0\<rparr>"

definition submit :: "string option \<Rightarrow> string \<Rightarrow> hook_sys \<Rightarrow> hook_sys" where
  "submit key c h =
     (case start_search key c (hs_state h) of
        (s', None) \<Rightarrow> h\<lparr>hs_state := s'\<rparr>
      | (s', Some ph) \<Rightarrow>
          h\<lparr>hs_state := s', hs_calls := (hs_calls h)(hs_next h \<mapsto> ph), hs_next := Suc (hs_next h)\<rparr>)"

inductive settle_step :: "hook_sys \<Rightarrow> hook_sys \<Rightarrow> bool" where
  fetch_settles:
    "hs_calls h i = Some (AwaitFetch u) \<Longrightarrow> resume_fetch out (hs_state h) = (s', ph) \<Longrightarrow>
     settle_step h (h\<lparr>hs_state := s', hs_calls := (hs_calls h)(i := ph)\<rparr>)"
| json_settles:
    "hs_calls h i = Some (AwaitJson j) \<Longrightarrow>
     settle_step h (h\<lparr>hs_state := resume_json j (hs_state h), hs_calls := (hs_calls h)(i := None)\<rparr>)"

inductive hook_step :: "string option \<Rightarrow> hook_sys \<Rightarrow> hook_sys \<Rightarrow> bool" for key where
  call: "hook_step key h (submit key c h)"
| settle: "settle_step h h' \<Longrightarrow> hook_step key h h'"

inductive_cases settle_stepE: "settle_step h h'"

text \<open>
  The event loop settling the pending promise of call \<open>i\<close> with a given network outcome
  (nothing happens for a call that is not pending); every such settlement is a step of
  \<open>settle_step\<close>.
\<close>

definition settle_call :: "nat \<Rightarrow> fetch_outcome \<Rightarrow> hook_sys \<Rightarrow> hook_sys" where
  "settle_call i out h =
     (case hs_calls h i of
        None \<Rightarrow> h
      | Some (AwaitFetch u) \<Rightarrow>
          (case resume_fetch out (hs_state h) of
             (s', ph) \<Rightarrow> h\<lparr>hs_state := s', hs_calls := (hs_calls h)(i := ph)\<rparr>)
      | Some (AwaitJson j) \<Rightarrow>
          h\<lparr>hs_state := resume_json j (hs_state h), hs_calls := (hs_calls h)(i := None)\<rparr>)"

text \<open>Provider answers used by the witnesses: the London reading of the spec's scenario
  (section 8) and a second city.\<close>

definition london_stats :: weatherStats where
  "london_stats = \<lparr>stats_name = Val ''London'', stats_sys = Val \<lparr>sys_country = Val ''GB''\<rparr>,
     stats_main = Val \<lparr>main_temp = Val 288.15, main_feels_like = Val 287\<rparr>\<rparr>"

definition paris_stats :: weatherStats where
  "paris_stats = \<lparr>stats_name = Val ''Paris'', stats_sys = Val \<lparr>sys_country = Val ''FR''\<rparr>,
     stats_main = Val \<lparr>main_temp = Val 293.15, main_feels_like = Val 293.15\<rparr>\<rparr>"

lemmas search_defs = start_search_def resume_fetch_def resume_json_def after_fetch_def
  fetchWeatherData_def

section \<open>Lemmas\<close>

lemma start_search_missing:
  "city_missing c \<Longrightarrow> start_search key c s = (s\<lparr>error := Some ''Enter a valid City name''\<rparr>, None)"
  by (simp add: start_search_def)

lemma start_search_no_key:
  "\<not> city_missing c \<Longrightarrow> api_key_missing key \<Longrightarrow>
   start_search key c s = (\<lparr>loading = False, data = None, error = Some ''Missing API key configuration''\<rparr>, None)"
  by (auto simp: start_search_def api_key_missing_def)

lemma start_search_request:
  "\<not> city_missing c \<Longrightarrow> key = Some k \<Longrightarrow> k \<noteq> [] \<Longrightarrow>
   start_search key c s = (\<lparr>loading = True, data = None, error = None\<rparr>, Some (AwaitFetch (request_url c k)))"
  by (simp add: start_search_def)

lemma fetchWeatherData_request:
  "\<not> city_missing c \<Longrightarrow> key = Some k \<Longrightarrow> k \<noteq> [] \<Longrightarrow>
   fetchWeatherData key c out s = after_fetch out \<lparr>loading = True, data = None, error = None\<rparr>"
  by (simp add: fetchWeatherData_def start_search_request)

lemma after_fetch_cases:
  "after_fetch out s = (case out of
      FetchRejected e \<Rightarrow> s\<lparr>error := Some (catch_message e), loading := False\<rparr>
    | FetchResolved st j \<Rightarrow>
        if response_ok st then resume_json j s
        else s\<lparr>error := Some (status_error st), loading := False\<rparr>)"
  by (simp add: after_fetch_def resume_fetch_def catch_message_def split: fetch_outcome.splits)

lemma ws_run_space: "ws_run '' ''"
  by (rule seq_run_single) (simp_all add: js_ws_seqs_def)

text \<open>
  C8. A blank city (empty, or whitespace only) issues no request and only sets the
  validation message: \<open>loading\<close> and \<open>data\<close> keep their values (spec 4.3 step 1), so
  a second blank search gives the same state again.
\<close>

theorem search_blank_city:
  assumes "ws_run c"
  shows "start_search key c s = (s\<lparr>error := Some ''Enter a valid City name''\<rparr>, None) \<and>
         fetchWeatherData key c out s = s\<lparr>error := Some ''Enter a valid City name''\<rparr> \<and>
         fetchWeatherData key c out' (fetchWeatherData key c out s) = fetchWeatherData key c out s"
proof -
  from assms have "city_missing c" by (simp add: city_missing_ws_run)
  then show ?thesis by (simp add: fetchWeatherData_def start_search_missing)
qed

theorem search_blank_city_witness:
  "ws_run '' '' \<and>
   start_search None '' '' \<lparr>loading = False, data = None, error = None\<rparr> =
     (\<lparr>loading = False, data = None, error = Some ''Enter a valid City name''\<rparr>, None) \<and>
   fetchWeatherData None '' '' (FetchRejected NonError) \<lparr>loading = False, data = None, error = None\<rparr> =
     \<lparr>loading = False, data = None, error = Some ''Enter a valid City name''\<rparr> \<and>
   fetchWeatherData None '' '' (FetchRejected NonError)
       (fetchWeatherData None '' '' (FetchRejected NonError) \<lparr>loading = False, data = None, error = None\<rparr>) =
     fetchWeatherData None '' '' (FetchRejected NonError) \<lparr>loading = False, data = None, error = None\<rparr>"
proof -
  let ?s = "\<lparr>loading = False, data = None, error = None\<rparr>"
  have e: "?s\<lparr>error := Some ''Enter a valid City name''\<rparr> =
           \<lparr>loading = False, data = None, error = Some ''Enter a valid City name''\<rparr>"
    by simp
  note w = search_blank_city [OF ws_run_space, of None ?s "FetchRejected NonError" "FetchRejected NonError"]
  from w [unfolded e] ws_run_space show ?thesis by blast
qed

text \<open>
  C9. With a non-blank city and no API key (undefined or empty), the call ends before any
  request with the configuration message, \<open>loading\<close> false and no data.
\<close>

theorem search_missing_key:
  assumes "\<not> city_missing c" and "api_key_missing key"
  shows "start_search key c s = (\<lparr>loading = False, data = None, error = Some ''Missing API key configuration''\<rparr>, None) \<and>
         fetchWeatherData key c out s = \<lparr>loading = False, data = None, error = Some ''Missing API key configuration''\<rparr>"
  using assms by (simp add: fetchWeatherData_def start_search_no_key)

theorem search_missing_key_witness:
  "\<not> city_missing ''London'' \<and> api_key_missing None \<and>
   fetchWeatherData None ''London'' (FetchRejected NonError) init_search =
     \<lparr>loading = False, data = None, error = Some ''Missing API key configuration''\<rparr>"
proof -
  have h: "\<not> city_missing ''London''" "api_key_missing None"
    by (simp_all add: city_missing_def js_simps api_key_missing_def)
  show ?thesis using search_missing_key [OF h, of init_search "FetchRejected NonError"] h by simp
qed

text \<open>
  C6. A response whose status is not 2xx ends the call with the status message of
  lines 34 to 37, \<open>loading\<close> false and no data; the body is never read.
\<close>

theorem search_http_error:
  assumes "\<not> city_missing c" and "key = Some k" and "k \<noteq> []" and "\<not> response_ok st"
  shows "fetchWeatherData key c (FetchResolved st j) s =
           \<lparr>loading = False, data = None, error = Some (status_error st)\<rparr>"
  using assms by (simp add: fetchWeatherData_request after_fetch_cases)

theorem search_http_error_witness:
  "\<not> city_missing ''London'' \<and> \<not> response_ok 404 \<and>
   fetchWeatherData (Some ''key'') ''London'' (FetchResolved 404 (JsonRejected NonError)) init_search =
     \<lparr>loading = False, data = None, error = Some ''City not found''\<rparr>"
proof -
  have h: "\<not> city_missing ''London''" "\<not> response_ok 404"
    by (simp_all add: city_missing_def js_simps response_ok_def)
  show ?thesis
    using search_http_error [OF h(1), of "Some ''key''" "''key''" 404 "JsonRejected NonError" init_search] h
    by (simp add: status_error_def)
qed

text \<open>
  C10. A failed transport (fetch rejects) ends the call with the thrown error's message,
  or the generic message when what was thrown is not an \<open>Error\<close>.
\<close>

theorem search_transport_error:
  assumes "\<not> city_missing c" and "key = Some k" and "k \<noteq> []"
  shows "fetchWeatherData key c (FetchRejected e) s =
           \<lparr>loading = False, data = None,
            error = Some (case e of ErrorObj m \<Rightarrow> m | NonError \<Rightarrow> ''An unexpected error occurred'')\<rparr>"
  using assms by (simp add: fetchWeatherData_request after_fetch_cases catch_message_def)

theorem search_transport_error_witness:
  "\<not> city_missing ''London'' \<and>
   fetchWeatherData (Some ''key'') ''London'' (FetchRejected (ErrorObj ''Failed to fetch'')) init_search =
     \<lparr>loading = False, data = None, error = Some ''Failed to fetch''\<rparr>"
proof -
  have h: "\<not> city_missing ''London''" by (simp add: city_missing_def js_simps)
  show ?thesis
    using search_transport_error [OF h, of "Some ''key''" "''key''" "ErrorObj ''Failed to fetch''" init_search] h
    by simp
qed

text \<open>
  C5. A 2xx response whose body has the provider's shape ends the call with the
  normalised record: city and country copied verbatim, both temperatures converted by
  \<open>toCelsius\<close>, \<open>loading\<close> false and no error.
\<close>

theorem search_success:
  assumes "\<not> city_missing c" and "key = Some k" and "k \<noteq> []" and "response_ok st"
  shows "fetchWeatherData key c
           (FetchResolved st (JsonParsed (Val \<lparr>stats_name = n, stats_sys = Val \<lparr>sys_country = co\<rparr>,
              stats_main = Val \<lparr>main_temp = t, main_feels_like = f\<rparr>\<rparr>))) s =
         \<lparr>loading = False,
          data = Some \<lparr>city = n, country = co, temp = toCelsius (to_number t),
                      feels_like = toCelsius (to_number f)\<rparr>,
          error = None\<rparr>"
  using assms by (simp add: fetchWeatherData_request after_fetch_cases resume_json_def process_stats_Val)

theorem search_success_witness:
  "\<not> city_missing ''Paris'' \<and> response_ok 200 \<and>
   fetchWeatherData (Some ''key'') ''Paris''
     (FetchResolved 200 (JsonParsed (Val \<lparr>stats_name = Val ''Paris'', stats_sys = Val \<lparr>sys_country = Val ''FR''\<rparr>,
        stats_main = Val \<lparr>main_temp = Val 300, main_feels_like = Val 273.15\<rparr>\<rparr>))) init_search =
   \<lparr>loading = False,
    data = Some \<lparr>city = Val ''Paris'', country = Val ''FR'', temp = Num 26.9, feels_like = Num 0\<rparr>,
    error = None\<rparr>"
proof -
  have h: "\<not> city_missing ''Paris''" "response_ok 200"
    by (simp_all add: city_missing_def js_simps response_ok_def)
  show ?thesis
    using search_success [OF h(1), of "Some ''key''" "''key''" 200 "Val ''Paris''" "Val ''FR''"
        "Val 300" "Val 273.15" init_search] h
    by (simp add: to_number_def toCelsius_def js_round_def)
qed

text \<open>
  C2. Once a call with a non-blank city has run to its end, \<open>loading\<close> is false and
  exactly one of \<open>error\<close> and \<open>data\<close> is set, whatever the network did (spec section 3).
\<close>

theorem search_resolves_exclusively:
  assumes "\<not> city_missing c"
  shows "\<not> loading (fetchWeatherData key c out s) \<and>
         (error (fetchWeatherData key c out s) = None \<longleftrightarrow> data (fetchWeatherData key c out s) \<noteq> None)"
proof (cases "api_key_missing key")
  case True
  with assms show ?thesis by (simp add: fetchWeatherData_def start_search_no_key)
next
  case False
  then obtain k where k: "key = Some k" "k \<noteq> []" by (auto simp: api_key_missing_def)
  show ?thesis
    using assms k
    by (auto simp: fetchWeatherData_request after_fetch_cases resume_json_def
             split: fetch_outcome.splits json_outcome.splits sum.splits)
qed

theorem search_resolves_exclusively_witness:
  "\<not> city_missing ''London'' \<and>
   \<not> loading (fetchWeatherData (Some ''key'') ''London'' (FetchRejected NonError) init_search) \<and>
   (error (fetchWeatherData (Some ''key'') ''London'' (FetchRejected NonError) init_search) = None \<longleftrightarrow>
    data (fetchWeatherData (Some ''key'') ''London'' (FetchRejected NonError) init_search) \<noteq> None)"
proof -
  have h: "\<not> city_missing ''London''" by (simp add: city_missing_def js_simps)
  show ?thesis
    using search_resolves_exclusively [OF h, of "Some ''key''" "FetchRejected NonError" init_search] h
    by blast
qed

text \<open>
  C21. An answer without a \<open>sys\<close> object makes the normalisation throw, and the call
  ends with the engine's TypeError message (the spec's UnknownError with the underlying
  message); no data is stored.
\<close>

theorem search_body_without_sys:
  assumes "\<not> city_missing c" and "key = Some k" and "k \<noteq> []" and "response_ok st"
    and "stats_sys r = Absent"
  shows "fetchWeatherData key c (FetchResolved st (JsonParsed (Val r))) s =
         \<lparr>loading = False, data = None,
          error = Some (''Cannot read properties of undefined (reading '' @ [CHR 0x27] @ ''country'' @
                        [CHR 0x27] @ '')'')\<rparr>"
  using assms
  by (simp add: fetchWeatherData_request after_fetch_cases resume_json_def process_stats_def
      read_prop_def read_error_def catch_message_def)

theorem search_body_without_sys_witness:
  "\<not> city_missing ''London'' \<and> response_ok 200 \<and> stats_sys (london_stats\<lparr>stats_sys := Absent\<rparr>) = Absent \<and>
   fetchWeatherData (Some ''key'') ''London'' (FetchResolved 200 (JsonParsed (Val (london_stats\<lparr>stats_sys := Absent\<rparr>))))
     init_search =
   \<lparr>loading = False, data = None,
    error = Some (''Cannot read properties of undefined (reading '' @ [CHR 0x27] @ ''country'' @ [CHR 0x27] @ '')'')\<rparr>"
proof -
  have h: "\<not> city_missing ''London''" "response_ok 200" "stats_sys (london_stats\<lparr>stats_sys := Absent\<rparr>) = Absent"
    by (simp_all add: city_missing_def js_simps response_ok_def)
  show ?thesis
    using search_body_without_sys [OF h(1) _ _ h(2) h(3), of "Some ''key''" "''key''" init_search] h
    by simp
qed

text \<open>
  C22. An answer whose \<open>main\<close> object lacks \<open>temp\<close> does not fail: the call stores a
  record whose temperature is \<open>NaN\<close> (JavaScript's \<open>undefined - 273.15\<close>), which the
  spec does not foresee.
\<close>

theorem search_missing_temp_NaN:
  assumes "\<not> city_missing c" and "key = Some k" and "k \<noteq> []" and "response_ok st"
    and "stats_sys r = Val sy" and "stats_main r = Val m" and "main_temp m = Absent"
  shows "\<not> loading (fetchWeatherData key c (FetchResolved st (JsonParsed (Val r))) s) \<and>
         error (fetchWeatherData key c (FetchResolved st (JsonParsed (Val r))) s) = None \<and>
         map_option temp (data (fetchWeatherData key c (FetchResolved st (JsonParsed (Val r))) s)) = Some NaN"
  using assms
  by (simp add: fetchWeatherData_request after_fetch_cases resume_json_def process_stats_def to_number_def)

theorem search_missing_temp_NaN_witness:
  "\<not> city_missing ''London'' \<and> response_ok 200 \<and>
   map_option temp (data (fetchWeatherData (Some ''key'') ''London''
     (FetchResolved 200 (JsonParsed (Val (london_stats\<lparr>stats_main := Val \<lparr>main_temp = Absent, main_feels_like = Val 287\<rparr>\<rparr>))))
     init_search)) = Some NaN"
proof -
  have h: "\<not> city_missing ''London''" "response_ok 200"
    by (simp_all add: city_missing_def js_simps response_ok_def)
  have "stats_sys (london_stats\<lparr>stats_main := Val \<lparr>main_temp = Absent, main_feels_like = Val 287\<rparr>\<rparr>) =
          Val \<lparr>sys_country = Val ''GB''\<rparr>"
    by (simp add: london_stats_def)
  with search_missing_temp_NaN [OF h(1) _ _ h(2), of "Some ''key''" "''key''"
      "london_stats\<lparr>stats_main := Val \<lparr>main_temp = Absent, main_feels_like = Val 287\<rparr>\<rparr>"
      "\<lparr>sys_country = Val ''GB''\<rparr>" "\<lparr>main_temp = Absent, main_feels_like = Val 287\<rparr>" init_search] h
  show ?thesis by simp
qed

lemma start_search_phase: "start_search key c s = (s', Some ph) \<Longrightarrow> \<exists>u. ph = AwaitFetch u"
  by (auto simp: start_search_def Let_def split: if_splits option.splits)

lemma resume_fetch_phase: "resume_fetch out s = (s', Some ph) \<Longrightarrow> \<exists>j. ph = AwaitJson j"
  by (auto simp: resume_fetch_def split: fetch_outcome.splits if_splits)

lemma settle_call_step:
  "hs_calls h i \<noteq> None \<Longrightarrow> settle_step h (settle_call i out h)"
proof -
  assume "hs_calls h i \<noteq> None"
  then obtain ph where ph: "hs_calls h i = Some ph" by blast
  show ?thesis
  proof (cases ph)
    case (AwaitFetch u)
    obtain s' r where r: "resume_fetch out (hs_state h) = (s', r)" by fastforce
    from ph AwaitFetch r have "settle_step h (h\<lparr>hs_state := s', hs_calls := (hs_calls h)(i := r)\<rparr>)"
      by (intro settle_step.fetch_settles) auto
    with ph AwaitFetch r show ?thesis by (simp add: settle_call_def)
  next
    case (AwaitJson j)
    with ph show ?thesis by (simp add: settle_call_def settle_step.json_settles)
  qed
qed

lemma settle_call_steps:
  assumes "\<And>a b. settle_step a b \<Longrightarrow> R a b"
  shows "R\<^sup>*\<^sup>* h (settle_call i out h)"
proof (cases "hs_calls h i")
  case None
  then show ?thesis by (simp add: settle_call_def)
next
  case (Some ph)
  then have "settle_step h (settle_call i out h)" by (simp add: settle_call_step)
  then show ?thesis by (blast intro: assms)
qed

lemma settle_call_run: "(hook_step key)\<^sup>*\<^sup>* h (settle_call i out h)"
  by (rule settle_call_steps) (rule hook_step.settle)

lemma settle_call_single:
  assumes "hs_calls h = [i \<mapsto> ph]"
  shows "hs_calls (settle_call i out2 (settle_call i out1 h)) = Map.empty"
proof (cases ph)
  case (AwaitFetch u)
  obtain s' r where r: "resume_fetch out1 (hs_state h) = (s', r)" by fastforce
  show ?thesis
  proof (cases r)
    case None
    with assms AwaitFetch r show ?thesis by (simp add: settle_call_def)
  next
    case (Some p)
    with r obtain j where "p = AwaitJson j" using resume_fetch_phase by blast
    with assms AwaitFetch r Some show ?thesis by (simp add: settle_call_def)
  qed
next
  case (AwaitJson j)
  with assms show ?thesis by (simp add: settle_call_def)
qed

text \<open>
  C19. Without the App's guard, overlapping calls break the state triad (spec section 5
  leaves them unguarded). Whenever one call waits for its response and another for its
  body, and the first gets an HTTP error before the second's body is read: after the
  first settles, \<open>loading\<close> is already false although the second is still pending; after
  the second settles, error and data are both set, the error of the one call beside the
  data of the other, because a success does not clear \<open>error\<close>.
\<close>

theorem hook_overlap_error_and_data:
  assumes i: "hs_calls h i = Some (AwaitFetch u)" and j: "hs_calls h j = Some (AwaitJson (JsonParsed b))"
    and ij: "i \<noteq> j" and d: "process_stats b = Inr d" and st: "\<not> response_ok st"
  shows "let h1 = settle_call i (FetchResolved st x) h; h2 = settle_call j out h1
         in \<not> loading (hs_state h1) \<and> hs_calls h1 j \<noteq> None \<and>
            \<not> loading (hs_state h2) \<and> error (hs_state h2) = Some (status_error st) \<and>
            data (hs_state h2) = Some d"
  using i j ij d st
  by (simp add: Let_def settle_call_def resume_fetch_def resume_json_def catch_message_def)

theorem hook_overlap_error_and_data_witness:
  "let h = settle_call 1 (FetchResolved 200 (JsonParsed (Val paris_stats)))
             (submit (Some ''key'') ''Paris'' (submit (Some ''key'') ''London'' init_sys))
   in (hook_step (Some ''key''))\<^sup>*\<^sup>* init_sys h \<and>
      hs_calls h 0 = Some (AwaitFetch ''https://api.openweathermap.org/data/2.5/weather?q=London&APPID=key'') \<and>
      hs_calls h 1 = Some (AwaitJson (JsonParsed (Val paris_stats))) \<and>
      \<not> loading (hs_state (settle_call 0 (FetchResolved 404 (JsonRejected NonError)) h)) \<and>
      error (hs_state (settle_call 1 (FetchRejected NonError) (settle_call 0 (FetchResolved 404 (JsonRejected NonError)) h))) =
        Some ''City not found'' \<and>
      data (hs_state (settle_call 1 (FetchRejected NonError) (settle_call 0 (FetchResolved 404 (JsonRejected NonError)) h))) =
        Some \<lparr>city = Val ''Paris'', country = Val ''FR'', temp = Num 20, feels_like = Num 20\<rparr>"
proof -
  let ?hp = "submit (Some ''key'') ''Paris'' (submit (Some ''key'') ''London'' init_sys)"
  let ?h = "settle_call 1 (FetchResolved 200 (JsonParsed (Val paris_stats))) ?hp"
  have r0: "(hook_step (Some ''key''))\<^sup>*\<^sup>* init_sys ?hp"
  proof -
    have "hook_step (Some ''key'') init_sys (submit (Some ''key'') ''London'' init_sys)"
      by (rule hook_step.call)
    moreover have "hook_step (Some ''key'') (submit (Some ''key'') ''London'' init_sys) ?hp"
      by (rule hook_step.call)
    ultimately show ?thesis by (meson rtranclp.rtrancl_into_rtrancl r_into_rtranclp)
  qed
  have r: "(hook_step (Some ''key''))\<^sup>*\<^sup>* init_sys ?h"
    using r0 settle_call_run [of "Some ''key''" ?hp 1] by (rule rtranclp_trans)
  have url: "encodeURIComponent ''London'' = ''London''" "encodeURIComponent ''Paris'' = ''Paris''"
    by (simp_all add: js_simps Let_def)
  have calls: "hs_calls ?h 0 = Some (AwaitFetch ''https://api.openweathermap.org/data/2.5/weather?q=London&APPID=key'')"
    "hs_calls ?h 1 = Some (AwaitJson (JsonParsed (Val paris_stats)))"
    by (simp_all add: settle_call_def submit_def init_sys_def init_search_def start_search_def
        city_missing_def js_simps request_url_def url resume_fetch_def response_ok_def)
  have d: "process_stats (Val paris_stats) =
      Inr \<lparr>city = Val ''Paris'', country = Val ''FR'', temp = Num 20, feels_like = Num 20\<rparr>"
    by (simp add: process_stats_def paris_stats_def to_number_def toCelsius_def js_round_def)
  have st: "\<not> response_ok 404" by (simp add: response_ok_def)
  have msg: "status_error 404 = ''City not found''" by (simp add: status_error_def)
  have "let h1 = settle_call 0 (FetchResolved 404 (JsonRejected NonError)) ?h; h2 = settle_call 1 (FetchRejected NonError) h1
        in \<not> loading (hs_state h1) \<and> hs_calls h1 1 \<noteq> None \<and> \<not> loading (hs_state h2) \<and>
           error (hs_state h2) = Some (status_error 404) \<and>
           data (hs_state h2) = Some \<lparr>city = Val ''Paris'', country = Val ''FR'', temp = Num 20, feels_like = Num 20\<rparr>"
    by (rule hook_overlap_error_and_data [OF calls(1) calls(2) _ d st]) simp
  then show ?thesis using r calls msg by (simp add: Let_def)
qed

end
