(* ===== verification/App.thy ===== *)
theory App
  imports SearchState
begin

text \<open>
  The composition in \<^verbatim>\<open>src/src/App.tsx\<close> and \<^verbatim>\<open>src/src/components/SearchForm.tsx\<close>.
  \<open>handleSearch\<close> (App lines 15 to 17) calls the hook with the trimmed input (the App state \<open>country\<close>, here \<open>query\<close>). The form
  can submit only while its button is enabled, \<open>disabled={loading || !country.trim()}\<close>
  (SearchForm line 37; the input itself is disabled while loading, line 33, and a form
  whose submit button is disabled does no implicit submission). React applies the state
  updates of a submit event before it dispatches the next event, so the guard sees the
  \<open>loading\<close> the last call set. \<open>app_step\<close> is the hook's step relation with calls
  restricted to enabled submits; \<open>app_panels\<close> is what \<open>main\<close> and the error slot render
  (App lines 37 to 81), with JavaScript's truthiness of \<open>error\<close> (an empty message is
  falsy).
  The lemmas show that under the guard the state stays consistent: \<open>loading\<close> holds
  exactly while one request is in flight, error and data are never both set, and exactly
  one panel is shown; and that any pending request returns the page to idle after at most
  two settlements, whatever the network does.
\<close>

section \<open>Definitions\<close>

definition submit_enabled :: "search_state \<Rightarrow> string \<Rightarrow> bool" where
  "submit_enabled s query \<longleftrightarrow> \<not> loading s \<and> js_trim query \<noteq> []"

definition handleSearch :: "string option \<Rightarrow> string \<Rightarrow> hook_sys \<Rightarrow> hook_sys" where
  "handleSearch key query h = submit key (js_trim query) h"

inductive app_step :: "string option \<Rightarrow> hook_sys \<Rightarrow> hook_sys \<Rightarrow> bool" for key where
  search: "submit_enabled (hs_state h) query \<Longrightarrow> app_step key h (handleSearch key query h)"
| settle: "settle_step h h' \<Longrightarrow> app_step key h h'"

datatype panel = ErrorPanel string | Skeleton | Card simpleWeather | Hint

definition error_panel :: "string option \<Rightarrow> panel list" where
  "error_panel e = (case e of Some m \<Rightarrow> if m \<noteq> [] then [ErrorPanel m] else [] | None \<Rightarrow> [])"

definition app_panels :: "search_state \<Rightarrow> panel list" where
  "app_panels s =
     error_panel (error s) @
     (if loading s then [Skeleton] else []) @
     (case data s of Some d \<Rightarrow> if \<not> loading s then [Card d] else [] | None \<Rightarrow> []) @
     (if \<not> loading s \<and> data s = None \<and> error_panel (error s) = [] then [Hint] else [])"

text \<open>The consistency the guard maintains.\<close>

definition app_inv :: "hook_sys \<Rightarrow> bool" where
  "app_inv h \<longleftrightarrow>
     (loading (hs_state h) \<longleftrightarrow> hs_calls h \<noteq> Map.empty) \<and>
     (\<forall>i j. hs_calls h i \<noteq> None \<longrightarrow> hs_calls h j \<noteq> None \<longrightarrow> i = j) \<and>
     (error (hs_state h) = None \<or> data (hs_state h) = None) \<and>
     (loading (hs_state h) \<longrightarrow> error (hs_state h) = None \<and> data (hs_state h) = None)"

section \<open>Lemmas\<close>

lemma single_call_remove:
  "\<forall>i j. m i \<noteq> None \<longrightarrow> m j \<noteq> None \<longrightarrow> i = j \<Longrightarrow> m i \<noteq> None \<Longrightarrow> m(i := None) = Map.empty"
  by (rule ext) auto

lemma single_call_update:
  "\<forall>i j. m i \<noteq> None \<longrightarrow> m j \<noteq> None \<longrightarrow> i = j \<Longrightarrow> m i \<noteq> None \<Longrightarrow>
   \<forall>a b. (m(i := r)) a \<noteq> None \<longrightarrow> (m(i := r)) b \<noteq> None \<longrightarrow> a = b"
  by auto

lemma app_inv_init: "app_inv init_sys"
  by (simp add: app_inv_def init_sys_def init_search_def)

lemma handleSearch_enabled:
  assumes "submit_enabled (hs_state h) query"
  shows "\<not> city_missing (js_trim query)"
  using assms by (simp add: submit_enabled_def city_missing_def js_trim_idem)

lemma app_inv_search:
  assumes inv: "app_inv h" and en: "submit_enabled (hs_state h) query"
  shows "app_inv (handleSearch key query h)"
proof -
  from inv en have empty: "hs_calls h = Map.empty"
    by (auto simp: app_inv_def submit_enabled_def)
  from en have nm: "\<not> city_missing (js_trim query)" by (rule handleSearch_enabled)
  show ?thesis
  proof (cases "api_key_missing key")
    case True
    with nm empty show ?thesis
      by (simp add: handleSearch_def submit_def start_search_no_key app_inv_def)
  next
    case False
    then obtain k where "key = Some k" "k \<noteq> []" by (auto simp: api_key_missing_def)
    with nm empty show ?thesis
      by (simp add: handleSearch_def submit_def start_search_request app_inv_def)
  qed
qed

lemma app_inv_settle:
  assumes st: "settle_step h h'" and inv: "app_inv h"
  shows "app_inv h'"
  using st
proof (cases rule: settle_step.cases)
  case (fetch_settles i u out s' ph)
  with inv have busy: "loading (hs_state h)" "error (hs_state h) = None" "data (hs_state h) = None"
    by (auto simp: app_inv_def)
  from inv have one: "\<forall>i j. hs_calls h i \<noteq> None \<longrightarrow> hs_calls h j \<noteq> None \<longrightarrow> i = j"
    by (simp add: app_inv_def)
  show ?thesis
  proof (cases ph)
    case None
    with fetch_settles busy one show ?thesis
      by (auto simp: app_inv_def resume_fetch_def single_call_remove
               split: fetch_outcome.splits if_splits)
  next
    case (Some p)
    with fetch_settles have "s' = hs_state h"
      by (auto simp: resume_fetch_def split: fetch_outcome.splits if_splits)
    with fetch_settles Some busy one show ?thesis
      by (auto simp: app_inv_def)
  qed
next
  case (json_settles i j)
  with inv have busy: "error (hs_state h) = None" "data (hs_state h) = None"
    by (auto simp: app_inv_def)
  from inv have one: "\<forall>i j. hs_calls h i \<noteq> None \<longrightarrow> hs_calls h j \<noteq> None \<longrightarrow> i = j"
    by (simp add: app_inv_def)
  with json_settles busy show ?thesis
    by (auto simp: app_inv_def resume_json_def single_call_remove
             split: json_outcome.splits sum.splits)
qed

lemma app_inv_step: "app_step key h h' \<Longrightarrow> app_inv h \<Longrightarrow> app_inv h'"
  by (induction rule: app_step.induct) (auto intro: app_inv_search app_inv_settle)

lemma app_reachable_inv: "(app_step key)\<^sup>*\<^sup>* init_sys h \<Longrightarrow> app_inv h"
  by (induction rule: rtranclp_induct) (auto intro: app_inv_init app_inv_step)

lemma app_inv_single:
  "app_inv h \<Longrightarrow> hs_calls h i = Some ph \<Longrightarrow> hs_calls h = [i \<mapsto> ph]"
  by (rule ext) (auto simp: app_inv_def)

lemma london_search_run:
  "hs_calls (handleSearch (Some ''key'') ''London'' init_sys) 0 =
     Some (AwaitFetch ''https://api.openweathermap.org/data/2.5/weather?q=London&APPID=key'') \<and>
   (app_step (Some ''key''))\<^sup>*\<^sup>* init_sys
     (settle_call 0 (FetchRejected NonError)
       (settle_call 0 (FetchResolved 200 (JsonParsed (Val london_stats)))
         (handleSearch (Some ''key'') ''London'' init_sys))) \<and>
   hs_state (settle_call 0 (FetchRejected NonError)
       (settle_call 0 (FetchResolved 200 (JsonParsed (Val london_stats)))
         (handleSearch (Some ''key'') ''London'' init_sys))) =
     \<lparr>loading = False,
      data = Some \<lparr>city = Val ''London'', country = Val ''GB'', temp = Num 15, feels_like = Num 13.9\<rparr>,
      error = None\<rparr>"
proof -
  let ?start = "handleSearch (Some ''key'') ''London'' init_sys"
  let ?mid = "settle_call 0 (FetchResolved 200 (JsonParsed (Val london_stats))) ?start"
  let ?final = "settle_call 0 (FetchRejected NonError) ?mid"
  have en: "submit_enabled (hs_state init_sys) ''London''"
    by (simp add: submit_enabled_def init_sys_def init_search_def js_simps)
  have r0: "(app_step (Some ''key''))\<^sup>*\<^sup>* init_sys ?start"
    using en by (blast intro: app_step.search)
  have r1: "(app_step (Some ''key''))\<^sup>*\<^sup>* ?start ?final"
    using settle_call_steps [of "app_step (Some ''key'')" ?start 0 "FetchResolved 200 (JsonParsed (Val london_stats))"]
      settle_call_steps [of "app_step (Some ''key'')" ?mid 0 "FetchRejected NonError"]
    by (blast intro: app_step.settle rtranclp_trans)
  have url: "encodeURIComponent ''London'' = ''London''"
    by (simp add: js_simps Let_def)
  have c0: "hs_calls ?start 0 =
      Some (AwaitFetch ''https://api.openweathermap.org/data/2.5/weather?q=London&APPID=key'')"
    by (simp add: handleSearch_def submit_def init_sys_def init_search_def start_search_def
        city_missing_def js_simps request_url_def url)
  have conv: "toCelsius (Num 288.15) = Num 15" "toCelsius (Num 287) = Num 13.9"
    by (simp_all add: toCelsius_def js_round_def)
  have st: "hs_state ?final =
      \<lparr>loading = False,
       data = Some \<lparr>city = Val ''London'', country = Val ''GB'', temp = Num 15, feels_like = Num 13.9\<rparr>,
       error = None\<rparr>"
    using c0 conv
    by (simp add: settle_call_def handleSearch_def submit_def init_sys_def init_search_def
        start_search_def city_missing_def js_simps resume_fetch_def response_ok_def
        resume_json_def process_stats_def london_stats_def to_number_def)
  from c0 r0 r1 st show ?thesis by (blast intro: rtranclp_trans)
qed

lemma app_latest_step:
  assumes "app_step key h h'" and "app_inv h" and "\<forall>i. hs_calls h i \<noteq> None \<longrightarrow> Suc i = hs_next h"
  shows "\<forall>i. hs_calls h' i \<noteq> None \<longrightarrow> Suc i = hs_next h'"
  using assms
proof (induction rule: app_step.induct)
  case (search h query)
  then have "hs_calls h = Map.empty" by (auto simp: app_inv_def submit_enabled_def)
  then show ?case by (auto simp: handleSearch_def submit_def split: prod.splits option.splits)
next
  case (settle h h')
  then show ?case by (cases rule: settle_step.cases) (auto split: if_splits)
qed

lemma app_reachable_latest:
  "(app_step key)\<^sup>*\<^sup>* init_sys h \<Longrightarrow> hs_calls h i \<noteq> None \<Longrightarrow> Suc i = hs_next h"
proof (induction arbitrary: i rule: rtranclp_induct)
  case base then show ?case by (simp add: init_sys_def)
next
  case (step h h')
  have "\<forall>i. hs_calls h' i \<noteq> None \<longrightarrow> Suc i = hs_next h'"
    using app_latest_step [OF step.hyps(2) app_reachable_inv [OF step.hyps(1)]] step.IH by blast
  with step.prems show ?case by blast
qed

lemma settle_step_settle_call:
  "settle_step h h' \<Longrightarrow> \<exists>i out. hs_calls h i \<noteq> None \<and> h' = settle_call i out h"
proof (induction rule: settle_step.induct)
  case (fetch_settles h i u out s' ph)
  then show ?case by (intro exI [of _ i] exI [of _ out]) (simp add: settle_call_def)
next
  case (json_settles h i j)
  then show ?case by (intro exI [of _ i] exI [of _ "FetchRejected NonError"]) (simp add: settle_call_def)
qed

text \<open>
  C3. Under the form's guard the search state is consistent in every reachable state:
  \<open>loading\<close> holds exactly while a request is in flight, at most one is in flight,
  error and data are never both set, and both are clear while loading (spec section 3).
\<close>

theorem app_state_consistent:
  assumes "(app_step key)\<^sup>*\<^sup>* init_sys h"
  shows "(loading (hs_state h) \<longleftrightarrow> hs_calls h \<noteq> Map.empty) \<and>
         (\<forall>i j. hs_calls h i \<noteq> None \<longrightarrow> hs_calls h j \<noteq> None \<longrightarrow> i = j) \<and>
         (error (hs_state h) = None \<or> data (hs_state h) = None) \<and>
         (loading (hs_state h) \<longrightarrow> error (hs_state h) = None \<and> data (hs_state h) = None)"
  using app_reachable_inv [OF assms] by (simp add: app_inv_def)

theorem app_state_consistent_witness:
  "(app_step (Some ''key''))\<^sup>*\<^sup>* init_sys (handleSearch (Some ''key'') ''London'' init_sys) \<and>
   loading (hs_state (handleSearch (Some ''key'') ''London'' init_sys)) \<and>
   hs_calls (handleSearch (Some ''key'') ''London'' init_sys) \<noteq> Map.empty \<and>
   error (hs_state (handleSearch (Some ''key'') ''London'' init_sys)) = None \<and>
   data (hs_state (handleSearch (Some ''key'') ''London'' init_sys)) = None"
proof -
  have en: "submit_enabled (hs_state init_sys) ''London''"
    by (simp add: submit_enabled_def init_sys_def init_search_def js_simps)
  then have r: "(app_step (Some ''key''))\<^sup>*\<^sup>* init_sys (handleSearch (Some ''key'') ''London'' init_sys)"
    by (blast intro: app_step.search)
  have l: "loading (hs_state (handleSearch (Some ''key'') ''London'' init_sys))"
    by (simp add: handleSearch_def submit_def init_sys_def init_search_def start_search_def
        city_missing_def js_simps)
  show ?thesis
    using app_state_consistent [OF r] r l by simp
qed

text \<open>
  C12. In every reachable state the page shows exactly one of the error message, the
  loading skeleton, the weather card and the hint.
\<close>

theorem app_one_panel:
  assumes "(app_step key)\<^sup>*\<^sup>* init_sys h"
  shows "length (app_panels (hs_state h)) = 1"
proof -
  from app_reachable_inv [OF assms] have inv: "app_inv h" .
  then show ?thesis
    by (auto simp: app_inv_def app_panels_def error_panel_def split: option.splits)
qed

theorem app_one_panel_witness:
  "(app_step (Some ''key''))\<^sup>*\<^sup>* init_sys init_sys \<and> length (app_panels (hs_state init_sys)) = 1"
  using app_one_panel [of "Some ''key''" init_sys] by simp

text \<open>
  C13. A request in flight never leaves the page loading for good: whatever the network
  answers, settling its promise at most twice is a run of the page and returns it to an
  idle state with no request pending.
\<close>

theorem app_settles_to_idle:
  assumes reach: "(app_step key)\<^sup>*\<^sup>* init_sys h" and pending: "hs_calls h i \<noteq> None"
  shows "(app_step key)\<^sup>*\<^sup>* h (settle_call i out2 (settle_call i out1 h)) \<and>
         hs_calls (settle_call i out2 (settle_call i out1 h)) = Map.empty \<and>
         \<not> loading (hs_state (settle_call i out2 (settle_call i out1 h)))"
proof -
  let ?h2 = "settle_call i out2 (settle_call i out1 h)"
  have run1: "(app_step key)\<^sup>*\<^sup>* h (settle_call i out1 h)"
    by (rule settle_call_steps) (rule app_step.settle)
  have run2: "(app_step key)\<^sup>*\<^sup>* (settle_call i out1 h) ?h2"
    by (rule settle_call_steps) (rule app_step.settle)
  from run1 run2 have run: "(app_step key)\<^sup>*\<^sup>* h ?h2" by (rule rtranclp_trans)
  from pending obtain ph where ph: "hs_calls h i = Some ph" by blast
  with app_reachable_inv [OF reach] have "hs_calls h = [i \<mapsto> ph]" by (rule app_inv_single)
  then have empty: "hs_calls ?h2 = Map.empty" by (rule settle_call_single)
  from reach run have "app_inv ?h2" by (blast intro: app_reachable_inv rtranclp_trans)
  with run empty show ?thesis by (simp add: app_inv_def)
qed

theorem app_settles_to_idle_witness:
  "(app_step (Some ''key''))\<^sup>*\<^sup>* init_sys (handleSearch (Some ''key'') ''London'' init_sys) \<and>
   hs_calls (handleSearch (Some ''key'') ''London'' init_sys) 0 \<noteq> None \<and>
   \<not> loading (hs_state (settle_call 0 (FetchRejected NonError)
       (settle_call 0 (FetchResolved 200 (JsonParsed (Val london_stats))) (handleSearch (Some ''key'') ''London'' init_sys))))"
proof -
  have en: "submit_enabled (hs_state init_sys) ''London''"
    by (simp add: submit_enabled_def init_sys_def init_search_def js_simps)
  then have r: "(app_step (Some ''key''))\<^sup>*\<^sup>* init_sys (handleSearch (Some ''key'') ''London'' init_sys)"
    by (blast intro: app_step.search)
  have p: "hs_calls (handleSearch (Some ''key'') ''London'' init_sys) 0 \<noteq> None"
    by (simp add: handleSearch_def submit_def init_sys_def start_search_def city_missing_def js_simps)
  show ?thesis
    using app_settles_to_idle [OF r p, of "FetchRejected NonError"
        "FetchResolved 200 (JsonParsed (Val london_stats))"] r p
    by blast
qed

text \<open>
  C11. Under the form's guard only the most recent search can still change the state:
  every settlement from a reachable state resumes the call numbered \<open>hs_next - 1\<close>, the
  last one \<open>submit\<close> issued, so no stale response is ever applied. Without the
  guard calls overlap and an older call's outcome lands beside a newer one's (C19).
\<close>

theorem app_only_latest_settles:
  assumes "(app_step key)\<^sup>*\<^sup>* init_sys h" and "settle_step h h'"
  shows "\<exists>out. h' = settle_call (hs_next h - 1) out h"
proof -
  obtain i out where i: "hs_calls h i \<noteq> None" and h': "h' = settle_call i out h"
    using settle_step_settle_call [OF assms(2)] by blast
  from app_reachable_latest [OF assms(1) i] have "i = hs_next h - 1" by simp
  with h' show ?thesis by blast
qed

theorem app_only_latest_settles_witness:
  "(app_step (Some ''key''))\<^sup>*\<^sup>* init_sys (handleSearch (Some ''key'') ''London'' init_sys) \<and>
   settle_step (handleSearch (Some ''key'') ''London'' init_sys)
     (settle_call 0 (FetchRejected NonError) (handleSearch (Some ''key'') ''London'' init_sys)) \<and>
   hs_next (handleSearch (Some ''key'') ''London'' init_sys) = 1 \<and>
   (\<exists>out. settle_call 0 (FetchRejected NonError) (handleSearch (Some ''key'') ''London'' init_sys) =
          settle_call (hs_next (handleSearch (Some ''key'') ''London'' init_sys) - 1) out
            (handleSearch (Some ''key'') ''London'' init_sys))"
proof -
  let ?h = "handleSearch (Some ''key'') ''London'' init_sys"
  have en: "submit_enabled (hs_state init_sys) ''London''"
    by (simp add: submit_enabled_def init_sys_def init_search_def js_simps)
  then have r: "(app_step (Some ''key''))\<^sup>*\<^sup>* init_sys ?h" by (blast intro: app_step.search)
  have s: "settle_step ?h (settle_call 0 (FetchRejected NonError) ?h)"
    using london_search_run by (simp add: settle_call_step)
  have n: "hs_next ?h = 1"
    by (simp add: handleSearch_def submit_def init_sys_def init_search_def start_search_def
        city_missing_def js_simps)
  from app_only_latest_settles [OF r s] r s n show ?thesis by simp
qed

end
