(* ===== verification/DarkMode.thy ===== *)
theory DarkMode
  imports Prelude
begin

text \<open>
  The hook \<open>useDarkMode\<close> of \<^verbatim>\<open>src/src/hooks/useDarkMode.ts\<close> with the browser state it
  reads and writes. \<open>dm_state\<close> holds the React state \<open>isDark\<close>, whether the root
  element carries the class \<open>dark\<close>, the local storage (a map from keys to strings, and
  whether \<open>getItem\<close> and \<open>setItem\<close> throw, as they do when storage is disabled or full),
  the system colour-scheme preference, whether the change listener is subscribed, and
  whether the component is mounted. The operations:
  \<^item> \<open>init_is_dark\<close>: the lazy initialiser of \<open>useState\<close> (lines 6 to 15);
  \<^item> \<open>apply_theme\<close>: the first effect (lines 18 to 23), run on mount and after every
    render in which \<open>isDark\<close> changed;
  \<^item> \<open>set_is_dark\<close>: a state update; React skips the render, and so the effect, when the
    value is unchanged;
  \<^item> \<open>mount\<close>: initial render, then both effects in order (the second subscribes the
    listener, lines 26 to 36); \<open>unmount\<close>: the second effect's cleanup (line 35);
  \<^item> \<open>toggle\<close>: line 38; \<open>on_system_change\<close>: the listener (lines 28 to 33), together
    with the change of the system preference that fires it.
  \<open>theme_step\<close> lets these happen in any order; with \<open>ext\<close> it also lets another tab
  or the user change the storage slot. \<open>window.matchMedia\<close> is taken to exist, as it does
  in every current browser. The lemmas show that the class follows \<open>isDark\<close>, that the
  slot mirrors \<open>isDark\<close> while storage works, that a reload restores the theme, and that
  because the mount already writes the slot, a change of the system preference is never
  adopted after mount while storage works.
\<close>

section \<open>State and operations\<close>

definition STORAGE_KEY :: string where
  "STORAGE_KEY = ''wi:dark''"

record dm_state =
  is_dark :: bool
  root_dark :: bool
  store :: "string \<rightharpoonup> string"
  get_fails :: bool
  set_fails :: bool
  prefers_dark :: bool
  listening :: bool
  mounted :: bool

definition bool_string :: "bool \<Rightarrow> string" where
  "bool_string b = (if b then ''true'' else ''false'')"

definition init_is_dark :: "dm_state \<Rightarrow> bool" where
  "init_is_dark s =
     (if get_fails s then False
      else (case store s STORAGE_KEY of
              Some v \<Rightarrow> if v = ''true'' then True else if v = ''false'' then False else prefers_dark s
            | None \<Rightarrow> prefers_dark s))"

definition apply_theme :: "dm_state \<Rightarrow> dm_state" where
  "apply_theme s =
     s\<lparr>root_dark := is_dark s,
       store := (if set_fails s then store s else (store s)(STORAGE_KEY \<mapsto> bool_string (is_dark s)))\<rparr>"

definition set_is_dark :: "bool \<Rightarrow> dm_state \<Rightarrow> dm_state" where
  "set_is_dark v s = (if v = is_dark s then s else apply_theme (s\<lparr>is_dark := v\<rparr>))"

definition mount :: "dm_state \<Rightarrow> dm_state" where
  "mount s = (apply_theme (s\<lparr>is_dark := init_is_dark s, mounted := True\<rparr>))\<lparr>listening := True\<rparr>"

definition unmount :: "dm_state \<Rightarrow> dm_state" where
  "unmount s = s\<lparr>listening := False, mounted := False\<rparr>"

definition toggle :: "dm_state \<Rightarrow> dm_state" where
  "toggle s = set_is_dark (\<not> is_dark s) s"

definition on_system_change :: "bool \<Rightarrow> dm_state \<Rightarrow> dm_state" where
  "on_system_change m s =
     (let s1 = s\<lparr>prefers_dark := m\<rparr> in
      if listening s1 \<and> \<not> get_fails s1 \<and> store s1 STORAGE_KEY = None then set_is_dark m s1 else s1)"

inductive theme_step :: "bool \<Rightarrow> dm_state \<Rightarrow> dm_state \<Rightarrow> bool" for ext where
  do_mount: "\<not> mounted s \<Longrightarrow> theme_step ext s (mount s)"
| do_unmount: "mounted s \<Longrightarrow> theme_step ext s (unmount s)"
| do_toggle: "mounted s \<Longrightarrow> theme_step ext s (toggle s)"
| system_change: "theme_step ext s (on_system_change m s)"
| external_write: "ext \<Longrightarrow> theme_step ext s (s\<lparr>store := (store s)(STORAGE_KEY := v)\<rparr>)"

text \<open>A page before its first mount: nothing rendered, no listener.\<close>

definition fresh_page :: "dm_state \<Rightarrow> bool" where
  "fresh_page s \<longleftrightarrow> \<not> mounted s \<and> \<not> listening s"

text \<open>What the hook keeps true of the page while storage writes succeed.\<close>

definition theme_inv :: "dm_state \<Rightarrow> bool" where
  "theme_inv s \<longleftrightarrow>
     (listening s \<longleftrightarrow> mounted s) \<and>
     (mounted s \<longrightarrow> root_dark s = is_dark s) \<and>
     (mounted s \<longrightarrow> \<not> set_fails s \<longrightarrow> store s STORAGE_KEY = Some (bool_string (is_dark s)))"

lemmas theme_defs = init_is_dark_def apply_theme_def set_is_dark_def mount_def unmount_def
  toggle_def on_system_change_def bool_string_def

section \<open>Lemmas\<close>

lemma init_is_dark_bool_string:
  "\<not> get_fails s \<Longrightarrow> store s STORAGE_KEY = Some (bool_string b) \<Longrightarrow> init_is_dark s = b"
  by (simp add: init_is_dark_def bool_string_def)

lemma theme_inv_fresh: "fresh_page s \<Longrightarrow> theme_inv s"
  by (simp add: fresh_page_def theme_inv_def)

lemma theme_inv_step: "theme_step False s t \<Longrightarrow> theme_inv s \<Longrightarrow> theme_inv t"
proof (induction rule: theme_step.induct)
  case (do_mount s)
  then show ?case by (simp add: theme_inv_def mount_def apply_theme_def)
next
  case (do_unmount s)
  then show ?case by (simp add: theme_inv_def unmount_def)
next
  case (do_toggle s)
  then show ?case by (simp add: theme_inv_def toggle_def set_is_dark_def apply_theme_def)
next
  case (system_change s m)
  then show ?case
    by (auto simp: theme_inv_def on_system_change_def set_is_dark_def apply_theme_def Let_def)
next
  case (external_write s v)
  then show ?case by simp
qed

lemma theme_reachable_inv:
  "(theme_step False)\<^sup>*\<^sup>* s0 s \<Longrightarrow> fresh_page s0 \<Longrightarrow> theme_inv s"
  by (induction rule: rtranclp_induct) (auto intro: theme_inv_fresh theme_inv_step)

lemma mount_fresh_reach: "fresh_page s \<Longrightarrow> (theme_step False)\<^sup>*\<^sup>* s (mount s)"
  by (auto simp: fresh_page_def intro: theme_step.do_mount)

text \<open>
  C15. While nothing outside the page writes the storage slot, every reachable state keeps
  the page consistent: the listener is subscribed exactly while mounted, the root element
  has class \<open>dark\<close> exactly when \<open>isDark\<close>, and, when storage writes succeed, the slot
  \<open>wi:dark\<close> holds \<open>String(isDark)\<close>.
\<close>

theorem theme_state_consistent:
  assumes "fresh_page s0" and "(theme_step False)\<^sup>*\<^sup>* s0 s"
  shows "(listening s \<longleftrightarrow> mounted s) \<and> (mounted s \<longrightarrow> root_dark s = is_dark s) \<and>
         (mounted s \<longrightarrow> \<not> set_fails s \<longrightarrow> store s STORAGE_KEY = Some (bool_string (is_dark s)))"
  using theme_reachable_inv [OF assms(2,1)] by (simp add: theme_inv_def)

theorem theme_state_consistent_witness:
  "fresh_page (dm_state.make False False Map.empty False False True False False) \<and>
   (theme_step False)\<^sup>*\<^sup>* (dm_state.make False False Map.empty False False True False False)
     (mount (dm_state.make False False Map.empty False False True False False)) \<and>
   root_dark (mount (dm_state.make False False Map.empty False False True False False)) \<and>
   store (mount (dm_state.make False False Map.empty False False True False False)) STORAGE_KEY = Some ''true''"
proof -
  let ?page = "dm_state.make False False Map.empty False False True False False"
  have f: "fresh_page ?page" by (simp add: fresh_page_def dm_state.make_def)
  have r: "(theme_step False)\<^sup>*\<^sup>* ?page (mount ?page)" using f by (rule mount_fresh_reach)
  have m: "mounted (mount ?page)" "\<not> set_fails (mount ?page)" "is_dark (mount ?page)"
    by (simp_all add: mount_def apply_theme_def init_is_dark_def dm_state.make_def)
  from theme_state_consistent [OF f r] m f r show ?thesis by (simp add: bool_string_def)
qed

text \<open>
  Evidence for a divergence from the spec and from the comment at line 25 ("sync with
  system changes if user hasn't explicitly chosen"): because the first effect writes the
  slot on mount, a change of the system colour scheme never changes the theme of a
  mounted page while storage works; the listener finds the slot set and does nothing. The
  code adopts a system change only if storage writes fail or the slot is removed from
  outside.
\<close>

lemma theme_system_change_ignored:
  assumes "fresh_page s0" and "(theme_step False)\<^sup>*\<^sup>* s0 s" and "mounted s" and "\<not> set_fails s"
  shows "is_dark (on_system_change m s) = is_dark s \<and> root_dark (on_system_change m s) = root_dark s"
proof -
  from theme_reachable_inv [OF assms(2,1)] assms(3,4)
  have "store s STORAGE_KEY = Some (bool_string (is_dark s))" by (simp add: theme_inv_def)
  then show ?thesis by (simp add: on_system_change_def Let_def)
qed

lemma theme_system_change_ignored_witness:
  "fresh_page (dm_state.make False False Map.empty False False False False False) \<and>
   (theme_step False)\<^sup>*\<^sup>* (dm_state.make False False Map.empty False False False False False)
     (mount (dm_state.make False False Map.empty False False False False False)) \<and>
   mounted (mount (dm_state.make False False Map.empty False False False False False)) \<and>
   \<not> set_fails (mount (dm_state.make False False Map.empty False False False False False)) \<and>
   \<not> is_dark (on_system_change True (mount (dm_state.make False False Map.empty False False False False False)))"
proof -
  let ?page = "dm_state.make False False Map.empty False False False False False"
  have f: "fresh_page ?page" by (simp add: fresh_page_def dm_state.make_def)
  have r: "(theme_step False)\<^sup>*\<^sup>* ?page (mount ?page)" using f by (rule mount_fresh_reach)
  have m: "mounted (mount ?page)" "\<not> set_fails (mount ?page)" "\<not> is_dark (mount ?page)"
    by (simp_all add: mount_def apply_theme_def init_is_dark_def dm_state.make_def)
  from theme_system_change_ignored [OF f r m(1,2), of True] m f r show ?thesis by simp
qed

text \<open>
  C17. The theme survives a reload: while storage works, unmounting and mounting again
  (a new session on the same storage) restores the same \<open>isDark\<close>.
\<close>

theorem theme_reload_restores:
  assumes "fresh_page s0" and "(theme_step False)\<^sup>*\<^sup>* s0 s" and "mounted s"
    and "\<not> set_fails s" and "\<not> get_fails s"
  shows "is_dark (mount (unmount s)) = is_dark s \<and> root_dark (mount (unmount s)) = is_dark s"
proof -
  from theme_reachable_inv [OF assms(2,1)] assms(3,4)
  have "store s STORAGE_KEY = Some (bool_string (is_dark s))" by (simp add: theme_inv_def)
  with assms(5) have "init_is_dark (unmount s) = is_dark s"
    by (intro init_is_dark_bool_string) (simp_all add: unmount_def)
  then show ?thesis by (simp add: mount_def apply_theme_def)
qed

theorem theme_reload_restores_witness:
  "fresh_page (dm_state.make False False Map.empty False False True False False) \<and>
   (theme_step False)\<^sup>*\<^sup>* (dm_state.make False False Map.empty False False True False False)
     (toggle (mount (dm_state.make False False Map.empty False False True False False))) \<and>
   \<not> is_dark (mount (unmount (toggle (mount (dm_state.make False False Map.empty False False True False False)))))"
proof -
  let ?page = "dm_state.make False False Map.empty False False True False False"
  let ?s = "toggle (mount ?page)"
  have f: "fresh_page ?page" by (simp add: fresh_page_def dm_state.make_def)
  have m0: "mounted (mount ?page)" by (simp add: mount_def apply_theme_def)
  have r: "(theme_step False)\<^sup>*\<^sup>* ?page ?s"
    using mount_fresh_reach [OF f] theme_step.do_toggle [OF m0] by (rule rtranclp.rtrancl_into_rtrancl)
  have m: "mounted ?s" "\<not> set_fails ?s" "\<not> get_fails ?s" "\<not> is_dark ?s"
    by (simp_all add: toggle_def set_is_dark_def mount_def apply_theme_def init_is_dark_def
        dm_state.make_def)
  have "is_dark (mount (unmount ?s)) = is_dark ?s"
    using theme_reload_restores [OF f r m(1,2,3)] by blast
  with m(4) have "\<not> is_dark (mount (unmount ?s))" by simp
  with f r show ?thesis by blast
qed

text \<open>
  C16. \<open>toggle\<close> flips \<open>isDark\<close>, moves the \<open>dark\<close> class with it, and persists the new
  value as the literal string \<open>"true"\<close> or \<open>"false"\<close> (unless the write throws, which
  is ignored).
\<close>

theorem theme_toggle:
  "is_dark (toggle s) = (\<not> is_dark s) \<and> root_dark (toggle s) = (\<not> is_dark s) \<and>
   store (toggle s) STORAGE_KEY =
     (if set_fails s then store s STORAGE_KEY else Some (if is_dark s then ''false'' else ''true''))"
  by (simp add: toggle_def set_is_dark_def apply_theme_def bool_string_def)

end
