(* ===== verification/WeatherCard.thy ===== *)
theory WeatherCard
  imports WeatherClient
begin

text \<open>
  The display logic of \<^verbatim>\<open>src/src/components/WeatherCard.tsx\<close>. The card takes four
  optional props; a prop that is \<open>undefined\<close> gets its default (line 13 to 18: Delhi, IN,
  34, 45), a \<open>null\<close> one does not. \<open>tier\<close> is the \<open>useMemo\<close> of lines 20 to 27
  (comparisons with \<open>NaN\<close> are false, so a \<open>NaN\<close> temperature falls through to
  \<open>cold\<close>); \<open>icon_color\<close> the colour class of the icon chosen by tier (lines 29 to 71);
  \<open>temp_text\<close> and \<open>delta_text\<close> the rounded texts of lines 73, 74 and 122; \<open>card_label\<close>
  the accessible label of line 84. \<open>card_of\<close> is how App passes a stored record to the
  card (App lines 68 to 73). The tiers are ordered from \<open>na\<close> and \<open>cold\<close> up to
  \<open>hot\<close> (a \<open>linorder\<close> instance), and the lemmas show that the tier follows the
  temperature monotonically, that App never produces \<open>na\<close>, and how far the displayed
  whole degrees can be from the converted reading (the display rounds a value that
  \<open>toCelsius\<close> has already rounded).
\<close>

section \<open>Definitions\<close>

record card_props =
  p_city :: "string jsfield"
  p_country :: "string jsfield"
  p_temp :: "jsnum jsfield"
  p_feels_like :: "jsnum jsfield"

definition with_default :: "'a \<Rightarrow> 'a jsfield \<Rightarrow> 'a jsfield" where
  "with_default d v = (case v of Absent \<Rightarrow> Val d | _ \<Rightarrow> v)"

definition card_defaults :: "card_props \<Rightarrow> card_props" where
  "card_defaults p =
     \<lparr>p_city = with_default ''Delhi'' (p_city p), p_country = with_default ''IN'' (p_country p),
      p_temp = with_default (Num 34) (p_temp p), p_feels_like = with_default (Num 45) (p_feels_like p)\<rparr>"

datatype tier = Na | Cold | Cool | Mild | Warm | Hot

definition tier_of :: "jsnum jsfield \<Rightarrow> tier" where
  "tier_of t =
     (case t of
        Val (Num x) \<Rightarrow>
          if x \<ge> 35 then Hot else if x \<ge> 25 then Warm else if x \<ge> 15 then Mild
          else if x \<ge> 5 then Cool else Cold
      | Val NaN \<Rightarrow> Cold
      | _ \<Rightarrow> Na)"

definition tier_name :: "tier \<Rightarrow> string" where
  "tier_name t = (case t of Na \<Rightarrow> ''na'' | Cold \<Rightarrow> ''cold'' | Cool \<Rightarrow> ''cool'' | Mild \<Rightarrow> ''mild''
                   | Warm \<Rightarrow> ''warm'' | Hot \<Rightarrow> ''hot'')"

definition icon_color :: "tier \<Rightarrow> string" where
  "icon_color t = (case t of Hot \<Rightarrow> ''text-orange-500'' | Warm \<Rightarrow> ''text-amber-400''
                    | Mild \<Rightarrow> ''text-emerald-400'' | Cool \<Rightarrow> ''text-sky-400''
                    | Cold \<Rightarrow> ''text-blue-500'' | Na \<Rightarrow> ''text-muted-foreground'')"

text \<open>\<open>String(Math.round(x))\<close>; the degree sign is U+00B0, two bytes in UTF-8.\<close>

definition round_text :: "jsnum \<Rightarrow> string" where
  "round_text v = (case v of Num x \<Rightarrow> show_int (js_round x) | NaN \<Rightarrow> ''NaN'')"

definition degree :: string where
  "degree = [CHR 0xC2, CHR 0xB0]"

definition temp_text :: "jsnum jsfield \<Rightarrow> string" where
  "temp_text t = (case t of Val v \<Rightarrow> round_text v @ degree @ ''C'' | _ \<Rightarrow> ''--'')"

definition delta_text :: "jsnum jsfield \<Rightarrow> jsnum jsfield \<Rightarrow> string" where
  "delta_text t f = (case (t, f) of (Val a, Val b) \<Rightarrow> round_text (js_sub b a) @ degree | _ \<Rightarrow> ''--'')"

definition js_text :: "string jsfield \<Rightarrow> string" where
  "js_text v = (case v of Val s \<Rightarrow> s | JNull \<Rightarrow> ''null'' | Absent \<Rightarrow> ''undefined'')"

definition card_label :: "card_props \<Rightarrow> string" where
  "card_label p =
     ''Weather summary for '' @ js_text (p_city p) @
     (case p_country p of Val c \<Rightarrow> if c \<noteq> [] then '', '' @ c else [] | _ \<Rightarrow> [])"

definition card_of :: "simpleWeather \<Rightarrow> card_props" where
  "card_of d = \<lparr>p_city = city d, p_country = country d, p_temp = Val (temp d), p_feels_like = Val (feels_like d)\<rparr>"

definition tier_rank :: "tier \<Rightarrow> nat" where
  "tier_rank t = (case t of Na \<Rightarrow> 0 | Cold \<Rightarrow> 1 | Cool \<Rightarrow> 2 | Mild \<Rightarrow> 3 | Warm \<Rightarrow> 4 | Hot \<Rightarrow> 5)"

instantiation tier :: linorder
begin

definition less_eq_tier :: "tier \<Rightarrow> tier \<Rightarrow> bool" where
  "less_eq_tier a b \<longleftrightarrow> tier_rank a \<le> tier_rank b"

definition less_tier :: "tier \<Rightarrow> tier \<Rightarrow> bool" where
  "less_tier a b \<longleftrightarrow> tier_rank a < tier_rank b"

instance
proof
  fix a b c :: tier
  show "a < b \<longleftrightarrow> a \<le> b \<and> \<not> b \<le> a" by (auto simp: less_eq_tier_def less_tier_def)
  show "a \<le> a" by (simp add: less_eq_tier_def)
  show "a \<le> b \<Longrightarrow> b \<le> c \<Longrightarrow> a \<le> c" by (simp add: less_eq_tier_def)
  show "a \<le> b \<Longrightarrow> b \<le> a \<Longrightarrow> a = b"
    by (cases a; cases b) (simp_all add: less_eq_tier_def tier_rank_def)
  show "a \<le> b \<or> b \<le> a" by (auto simp: less_eq_tier_def)
qed

end

section \<open>Lemmas\<close>

lemma tier_of_Num_cases:
  "tier_of (Val (Num x)) \<in> {Cold, Cool, Mild, Warm, Hot}"
  by (simp add: tier_of_def)

lemma js_round_half_bound: "\<bar>real_of_int (js_round x) - x\<bar> \<le> 1 / 2"
  using js_round_le [of x] js_round_gt [of x] by linarith

lemma london_card:
  "temp_text (p_temp (card_defaults (card_of
     \<lparr>city = Val ''London'', country = Val ''GB'', temp = Num 15, feels_like = Num 13.9\<rparr>))) =
     ''15'' @ degree @ ''C'' \<and>
   temp_text (p_feels_like (card_defaults (card_of
     \<lparr>city = Val ''London'', country = Val ''GB'', temp = Num 15, feels_like = Num 13.9\<rparr>))) =
     ''14'' @ degree @ ''C'' \<and>
   delta_text (p_temp (card_defaults (card_of
       \<lparr>city = Val ''London'', country = Val ''GB'', temp = Num 15, feels_like = Num 13.9\<rparr>)))
     (p_feels_like (card_defaults (card_of
       \<lparr>city = Val ''London'', country = Val ''GB'', temp = Num 15, feels_like = Num 13.9\<rparr>))) =
     ''-1'' @ degree \<and>
   tier_of (p_temp (card_defaults (card_of
     \<lparr>city = Val ''London'', country = Val ''GB'', temp = Num 15, feels_like = Num 13.9\<rparr>))) = Mild \<and>
   card_label (card_defaults (card_of
     \<lparr>city = Val ''London'', country = Val ''GB'', temp = Num 15, feels_like = Num 13.9\<rparr>)) =
     ''Weather summary for London, GB''"
proof -
  have texts: "show_int 15 = ''15''" "show_int 14 = ''14''" "show_int (-1) = ''-1''"
    by code_simp+
  have rounds: "js_round 15 = 15" "js_round 13.9 = 14" "js_round (13.9 - 15) = -1"
    by (simp_all add: js_round_def)
  show ?thesis
    using texts rounds
    by (simp add: card_of_def card_defaults_def with_default_def temp_text_def delta_text_def
        round_text_def tier_of_def card_label_def js_text_def)
qed

text \<open>The tier follows the temperature: a warmer reading never gets a lower tier.\<close>

lemma tier_of_mono:
  assumes "x \<le> y"
  shows "tier_of (Val (Num x)) \<le> tier_of (Val (Num y))"
  using assms by (simp add: tier_of_def less_eq_tier_def tier_rank_def)

text \<open>
  C24. For every record App passes to the card, the tier is never \<open>na\<close> (the branch
  \<open>temp == null\<close> of line 21 is dead): a stored temperature is always a number, and a
  \<open>NaN\<close> one shows as \<open>cold\<close>.
\<close>

theorem card_tier_never_na:
  "tier_of (p_temp (card_defaults (card_of d))) \<noteq> Na \<and>
   tier_of (p_temp (card_defaults (card_of (d\<lparr>temp := NaN\<rparr>)))) = Cold"
  by (cases "temp d") (simp_all add: card_of_def card_defaults_def with_default_def tier_of_def)

text \<open>
  C23. The whole degrees the card shows are within 0.55 of the converted reading: the
  display rounds (half up) the value \<open>toCelsius\<close> already rounded to a tenth, so the two
  roundings add up.
\<close>

theorem card_temp_display_bound:
  "\<exists>n. temp_text (Val (toCelsius (Num k))) = show_int n @ degree @ ''C'' \<and>
       \<bar>real_of_int n - (k - 273.15)\<bar> \<le> 11 / 20"
proof -
  let ?c = "real_of_int (js_round ((k - 273.15) * 10)) / 10"
  have c: "\<bar>?c - (k - 273.15)\<bar> \<le> 1 / 20"
    using js_round_tenths_bounds [of "k - 273.15"] unfolding abs_le_iff by linarith
  have n: "\<bar>real_of_int (js_round ?c) - ?c\<bar> \<le> 1 / 2" by (rule js_round_half_bound)
  from c n have "\<bar>real_of_int (js_round ?c) - (k - 273.15)\<bar> \<le> 11 / 20" by linarith
  then show ?thesis
    by (intro exI [of _ "js_round ?c"]) (simp add: toCelsius_Num temp_text_def round_text_def)
qed

text \<open>
  Evidence for the double-rounding finding: the bound of C23 is reached. 287.6 K is
  14.45 \<degree>C, whose nearest whole degree is 14, but \<open>toCelsius\<close> gives 14.5 and the
  card shows 15 \<degree>C.
\<close>

lemma card_double_rounding:
  "toCelsius (Num 287.6) = Num 14.5 \<and>
   temp_text (Val (toCelsius (Num 287.6))) = ''15'' @ degree @ ''C'' \<and>
   js_round (287.6 - 273.15) = 14"
proof -
  have t: "toCelsius (Num 287.6) = Num 14.5" by (simp add: toCelsius_def js_round_def)
  have r: "js_round 14.5 = 15" "js_round (287.6 - 273.15) = 14" by (simp_all add: js_round_def)
  have "show_int 15 = ''15''" by code_simp
  with t r show ?thesis by (simp add: temp_text_def round_text_def)
qed

end
