(* ===== verification/SearchSpec.thy ===== *)
theory SearchSpec
  imports SearchState
begin

text \<open>
  The contract the spec states for the WeatherClient and SearchState components, as an
  abstract specification written from the spec (sections 4.2, 4.3 and 7), not from the
  code. \<open>err_kind\<close> is the error taxonomy of section 7 and \<open>kind_message\<close> the text
  each kind carries. \<open>weather_spec\<close> says which results \<open>fetchWeather\<close> may give for a
  key, a city and a network outcome; it is a bool-valued function, not a relation, so it
  evaluates. The spec leaves the message of an \<open>UnknownError\<close> for a malformed body open,
  so any message is allowed there. \<open>provider_response\<close> reads a well-shaped body, and
  \<open>search_spec\<close> is the state section 4.3 prescribes for a result. The refinement
  theorem characterises exactly the network outcomes for which the hook's
  \<open>fetchWeatherData\<close> (theory \<open>SearchState\<close>) ends in that state.
\<close>

section \<open>The specified contract\<close>

datatype err_kind =
    ValidationError | ConfigError | NotFound | Unauthorized | RateLimited
  | UpstreamError int | UnknownError "string option"

definition kind_message :: "err_kind \<Rightarrow> string" where
  "kind_message k = (case k of
       ValidationError \<Rightarrow> ''Enter a valid City name''
     | ConfigError \<Rightarrow> ''Missing API key configuration''
     | NotFound \<Rightarrow> ''City not found''
     | Unauthorized \<Rightarrow> ''Invalid API key''
     | RateLimited \<Rightarrow> ''Too many requests, try later''
     | UpstreamError st \<Rightarrow> ''Failed to fetch data: '' @ show_int st
     | UnknownError (Some m) \<Rightarrow> m
     | UnknownError None \<Rightarrow> ''An unexpected error occurred'')"

definition status_kind :: "int \<Rightarrow> err_kind" where
  "status_kind st =
     (if st = 404 then NotFound else if st = 401 then Unauthorized
      else if st = 429 then RateLimited else UpstreamError st)"

definition thrown_message :: "thrown \<Rightarrow> string option" where
  "thrown_message e = (case e of ErrorObj m \<Rightarrow> Some m | NonError \<Rightarrow> None)"

definition provider_response :: "weatherStats jsfield \<Rightarrow> simpleWeather option" where
  "provider_response b =
     (case b of
        Val r \<Rightarrow>
          (case (stats_name r, stats_sys r, stats_main r) of
             (Val n, Val sy, Val m) \<Rightarrow>
               (case (sys_country sy, main_temp m, main_feels_like m) of
                  (Val co, Val t, Val f) \<Rightarrow>
                    Some \<lparr>city = Val n, country = Val co, temp = toCelsius (Num t),
                          feels_like = toCelsius (Num f)\<rparr>
                | _ \<Rightarrow> None)
           | _ \<Rightarrow> None)
      | _ \<Rightarrow> None)"

definition is_unknown_with_message :: "err_kind + simpleWeather \<Rightarrow> bool" where
  "is_unknown_with_message r = (case r of Inl (UnknownError (Some _)) \<Rightarrow> True | _ \<Rightarrow> False)"

definition weather_spec :: "string option \<Rightarrow> string \<Rightarrow> fetch_outcome \<Rightarrow> err_kind + simpleWeather \<Rightarrow> bool" where
  "weather_spec key c out r \<longleftrightarrow>
     (if js_trim c = [] then r = Inl ValidationError
      else if key = None \<or> key = Some [] then r = Inl ConfigError
      else case out of
        FetchRejected e \<Rightarrow> r = Inl (UnknownError (thrown_message e))
      | FetchResolved st j \<Rightarrow>
          if st < 200 \<or> 299 < st then r = Inl (status_kind st)
          else case j of
            JsonRejected e \<Rightarrow> r = Inl (UnknownError (thrown_message e))
          | JsonParsed b \<Rightarrow>
              (case provider_response b of
                 Some d \<Rightarrow> r = Inr d
               | None \<Rightarrow> is_unknown_with_message r))"

definition search_spec :: "string \<Rightarrow> search_state \<Rightarrow> err_kind + simpleWeather \<Rightarrow> search_state" where
  "search_spec c s r =
     (if js_trim c = [] then s\<lparr>error := Some (kind_message ValidationError)\<rparr>
      else case r of
        Inl k \<Rightarrow> \<lparr>loading = False, data = None, error = Some (kind_message k)\<rparr>
      | Inr d \<Rightarrow> \<lparr>loading = False, data = Some d, error = None\<rparr>)"

definition body_conforms :: "fetch_outcome \<Rightarrow> bool" where
  "body_conforms out =
     (case out of
        FetchResolved st (JsonParsed b) \<Rightarrow>
          \<not> response_ok st \<or> provider_response b \<noteq> None \<or> isl (process_stats b)
      | _ \<Rightarrow> True)"

section \<open>Lemmas\<close>

lemma status_error_kind: "status_error st = kind_message (status_kind st)"
  by (simp add: status_error_def status_kind_def kind_message_def)

lemma catch_message_kind: "catch_message e = kind_message (UnknownError (thrown_message e))"
  by (cases e) (simp_all add: catch_message_def thrown_message_def kind_message_def)

lemma provider_response_process_stats:
  "provider_response b = Some d \<Longrightarrow> process_stats b = Inr d"
  by (auto simp: provider_response_def process_stats_def read_prop_def to_number_def
           split: jsfield.splits)

lemma process_stats_Inl_ErrorObj: "process_stats b = Inl e \<Longrightarrow> \<exists>m. e = ErrorObj m"
  using process_stats_Inl [of b e] by (auto simp: read_error_def)

lemma weather_spec_request:
  assumes "\<not> city_missing c" and "key = Some k" and "k \<noteq> []"
  shows "weather_spec key c out r \<longleftrightarrow>
    (case out of
        FetchRejected e \<Rightarrow> r = Inl (UnknownError (thrown_message e))
      | FetchResolved st j \<Rightarrow>
          if \<not> response_ok st then r = Inl (status_kind st)
          else case j of
            JsonRejected e \<Rightarrow> r = Inl (UnknownError (thrown_message e))
          | JsonParsed b \<Rightarrow>
              (case provider_response b of Some d \<Rightarrow> r = Inr d | None \<Rightarrow> is_unknown_with_message r))"
  using assms by (simp add: weather_spec_def city_missing_def response_ok_def not_le
      split: fetch_outcome.split)

lemma search_spec_request:
  "\<not> city_missing c \<Longrightarrow> search_spec c s r = (case r of
        Inl k \<Rightarrow> \<lparr>loading = False, data = None, error = Some (kind_message k)\<rparr>
      | Inr d \<Rightarrow> \<lparr>loading = False, data = Some d, error = None\<rparr>)"
  by (simp add: search_spec_def city_missing_def)

lemma after_fetch_refines:
  assumes "\<not> city_missing c" and "key = Some k" and "k \<noteq> []"
  shows "(\<exists>r. weather_spec key c out r \<and>
              after_fetch out \<lparr>loading = True, data = None, error = None\<rparr> = search_spec c s r) \<longleftrightarrow>
         body_conforms out"
proof (cases out)
  case (FetchRejected e)
  then show ?thesis using assms
    by (simp add: weather_spec_request search_spec_request after_fetch_cases catch_message_kind
        body_conforms_def)
next
  case (FetchResolved st j)
  show ?thesis
  proof (cases "response_ok st")
    case False
    then show ?thesis using assms FetchResolved
      by (simp add: weather_spec_request search_spec_request after_fetch_cases status_error_kind
          body_conforms_def split: json_outcome.splits)
  next
    case ok: True
    show ?thesis
    proof (cases j)
      case (JsonRejected e)
      then show ?thesis using assms FetchResolved ok
        by (simp add: weather_spec_request search_spec_request after_fetch_cases resume_json_def
            catch_message_kind body_conforms_def)
    next
      case (JsonParsed b)
      show ?thesis
      proof (cases "provider_response b")
        case (Some d)
        then show ?thesis using assms FetchResolved ok JsonParsed provider_response_process_stats [OF Some]
          by (simp add: weather_spec_request search_spec_request after_fetch_cases resume_json_def
              body_conforms_def)
      next
        case None
        show ?thesis
        proof (cases "process_stats b")
          case (Inl e)
          then obtain m where m: "e = ErrorObj m" using process_stats_Inl_ErrorObj by blast
          have "weather_spec key c out (Inl (UnknownError (Some m)))"
            using assms FetchResolved ok JsonParsed None
            by (simp add: weather_spec_request is_unknown_with_message_def)
          moreover have "after_fetch out \<lparr>loading = True, data = None, error = None\<rparr> =
              search_spec c s (Inl (UnknownError (Some m)))"
            using assms FetchResolved ok JsonParsed Inl m
            by (simp add: search_spec_request after_fetch_cases resume_json_def catch_message_def
                kind_message_def)
          ultimately show ?thesis using FetchResolved ok JsonParsed Inl
            by (auto simp: body_conforms_def)
        next
          case (Inr d)
          have "\<not> (weather_spec key c out r \<and>
                   after_fetch out \<lparr>loading = True, data = None, error = None\<rparr> = search_spec c s r)" for r
            using assms FetchResolved ok JsonParsed None Inr
            by (auto simp: weather_spec_request search_spec_request after_fetch_cases resume_json_def
                is_unknown_with_message_def split: sum.splits err_kind.splits option.splits)
          then show ?thesis using FetchResolved ok JsonParsed None Inr
            by (auto simp: body_conforms_def)
        qed
      qed
    qed
  qed
qed

text \<open>
  C4. The hook implements the contract of spec sections 4.2 and 4.3 with the taxonomy of
  section 7: a call ends in the state the contract prescribes for some result the
  contract allows exactly when the city is blank, the key is missing, or the provider's
  body is either well-shaped or rejected by the normalisation. A 2xx body that lacks a
  field without lacking \<open>sys\<close> or \<open>main\<close> is stored as a success, where the contract
  requires an \<open>UnknownError\<close>.
\<close>

theorem fetchWeatherData_refines_contract:
  "(\<exists>r. weather_spec key c out r \<and> fetchWeatherData key c out s = search_spec c s r) \<longleftrightarrow>
   (city_missing c \<or> api_key_missing key \<or> body_conforms out)"
proof (cases "city_missing c")
  case True
  then have "weather_spec key c out (Inl ValidationError)"
       "fetchWeatherData key c out s = search_spec c s (Inl ValidationError)"
    by (simp_all add: weather_spec_def search_spec_def city_missing_def fetchWeatherData_def
        start_search_def kind_message_def)
  with True show ?thesis by blast
next
  case blank: False
  show ?thesis
  proof (cases "api_key_missing key")
    case True
    with blank have "weather_spec key c out (Inl ConfigError)"
       "fetchWeatherData key c out s = search_spec c s (Inl ConfigError)"
      by (simp_all add: weather_spec_def search_spec_request city_missing_def api_key_missing_def
          fetchWeatherData_def start_search_no_key kind_message_def)
    with True show ?thesis by blast
  next
    case False
    then obtain k where k: "key = Some k" "k \<noteq> []" by (auto simp: api_key_missing_def)
    show ?thesis
      using after_fetch_refines [OF blank k, of out s] fetchWeatherData_request [OF blank k, of out s]
        blank False by simp
  qed
qed

theorem fetchWeatherData_refines_contract_witness:
  "body_conforms (FetchResolved 200 (JsonParsed (Val london_stats))) \<and>
   weather_spec (Some ''key'') ''London'' (FetchResolved 200 (JsonParsed (Val london_stats)))
     (Inr \<lparr>city = Val ''London'', country = Val ''GB'', temp = Num 15, feels_like = Num 13.9\<rparr>) \<and>
   (\<exists>r. weather_spec (Some ''key'') ''London'' (FetchResolved 200 (JsonParsed (Val london_stats))) r \<and>
        fetchWeatherData (Some ''key'') ''London'' (FetchResolved 200 (JsonParsed (Val london_stats))) init_search =
        search_spec ''London'' init_search r)"
proof -
  have p: "provider_response (Val london_stats) =
      Some \<lparr>city = Val ''London'', country = Val ''GB'', temp = Num 15, feels_like = Num 13.9\<rparr>"
    by (simp add: provider_response_def london_stats_def toCelsius_def js_round_def)
  have b: "body_conforms (FetchResolved 200 (JsonParsed (Val london_stats)))"
    by (simp add: body_conforms_def p)
  have w: "weather_spec (Some ''key'') ''London'' (FetchResolved 200 (JsonParsed (Val london_stats)))
     (Inr \<lparr>city = Val ''London'', country = Val ''GB'', temp = Num 15, feels_like = Num 13.9\<rparr>)"
    by (simp add: weather_spec_def js_simps p)
  show ?thesis
    using fetchWeatherData_refines_contract [of "Some ''key''" "''London''"
        "FetchResolved 200 (JsonParsed (Val london_stats))" init_search] b w by blast
qed

end
