(* ===== verification/View.thy ===== *)
theory View
  imports App WeatherCard
begin

text \<open>
  What the components render, as a tree of elements and text: \<^verbatim>\<open>ErrorMessage.tsx\<close>
  (lines 9 to 15), the form of \<^verbatim>\<open>SearchForm.tsx\<close> (lines 24 to 55), the card of
  \<^verbatim>\<open>WeatherCard.tsx\<close> with its icon (lines 29 to 71 and 76 to 139), and the page of
  \<^verbatim>\<open>App.tsx\<close> (lines 19 to 104). An element keeps its tag (or the name of the UI
  component it instantiates: \<open>Alert\<close>, \<open>Card\<close>, \<open>Button\<close>, \<open>Input\<close> and the icons of
  the icon library), the attributes that carry meaning (\<open>aria-*\<close>, \<open>title\<close>,
  \<open>type\<close>, \<open>disabled\<close>, \<open>value\<close>, \<open>placeholder\<close>, the SVG geometry) and its children
  in order. A \<open>className\<close> is kept only where it depends on state (the icon's and the
  tier badge's colour); the other class names are styling and are left out. Event
  handlers are not part of the tree: what they do is the step relations of \<open>App\<close>,
  \<open>DarkMode\<close> and \<open>Page\<close>. React's rendering of a child expression is written out:
  \<open>null\<close>, \<open>undefined\<close> and \<open>false\<close> render nothing, a string renders a text node,
  and a boolean attribute is present only when true. \<open>cn\<close> (from the UI library, not in
  the repository) joins the truthy class strings with spaces.
\<close>

section \<open>Elements\<close>

datatype vnode = El string "(string \<times> string) list" "vnode list" | Txt string

fun text_of :: "vnode \<Rightarrow> string" where
  "text_of (Txt s) = s"
| "text_of (El _ _ cs) = concat (map text_of cs)"

fun nodes :: "vnode \<Rightarrow> vnode list" where
  "nodes (Txt s) = [Txt s]"
| "nodes (El t a cs) = El t a cs # concat (map nodes cs)"

definition has_label :: "string \<Rightarrow> vnode \<Rightarrow> bool" where
  "has_label l v = list_ex (\<lambda>e. case e of El _ a _ \<Rightarrow> (''aria-label'', l) \<in> set a | Txt _ \<Rightarrow> False) (nodes v)"

definition js_child :: "string jsfield \<Rightarrow> vnode list" where
  "js_child v = (case v of Val s \<Rightarrow> [Txt s] | _ \<Rightarrow> [])"

definition js_attr :: "string \<Rightarrow> string jsfield \<Rightarrow> (string \<times> string) list" where
  "js_attr k v = (case v of Val s \<Rightarrow> [(k, s)] | _ \<Rightarrow> [])"

definition bool_attr :: "string \<Rightarrow> bool \<Rightarrow> (string \<times> string) list" where
  "bool_attr k b = (if b then [(k, [])] else [])"

definition cn :: "string list \<Rightarrow> string" where
  "cn xs = (case filter (\<lambda>x. x \<noteq> []) xs of
              [] \<Rightarrow> []
            | y # ys \<Rightarrow> y @ concat (map (\<lambda>z. '' '' @ z) ys))"

section \<open>ErrorMessage\<close>

definition error_message_view :: "string \<Rightarrow> vnode" where
  "error_message_view m =
     El ''Alert'' [(''variant'', ''destructive'')]
       [El ''AlertCircle'' [] [], El ''AlertDescription'' [] [Txt m]]"

section \<open>SearchForm\<close>

definition search_form_view :: "string \<Rightarrow> bool \<Rightarrow> vnode" where
  "search_form_view query is_loading =
     El ''form'' [] [El ''div'' []
       [El ''Input'' ([(''type'', ''text''), (''placeholder'', ''Enter City name''), (''value'', query)] @
                      bool_attr ''disabled'' is_loading) [],
        El ''Button'' ((''type'', ''submit'') # bool_attr ''disabled'' (is_loading \<or> js_trim query = []))
          (if is_loading
           then [El ''Loader2'' [] [], El ''span'' [] [Txt ''Searching...''], El ''span'' [] [Txt ''Loading'']]
           else [El ''Search'' [] [], El ''span'' [] [Txt ''Search'']])]]"

section \<open>WeatherCard\<close>

definition icon_base :: string where
  "icon_base = ''h-12 w-12 drop-shadow-sm''"

definition icon_view :: "tier \<Rightarrow> vnode" where
  "icon_view t =
     (let svg = \<lambda>filled cs. El ''svg''
            ([(''viewBox'', ''0 0 24 24''), (''className'', cn [icon_base, icon_color t])] @
             (if filled then [(''fill'', ''currentColor'')]
              else [(''fill'', ''none''), (''stroke'', ''currentColor''), (''strokeWidth'', ''2'')]) @
             [(''aria-hidden'', ''true'')]) cs;
          circle = \<lambda>r. El ''circle'' [(''cx'', ''12''), (''cy'', ''12''), (''r'', r)] []
      in case t of
        Hot \<Rightarrow> svg True
          [El ''path'' [(''d'', ''M12 18a6 6 0 1 0 0-12 6 6 0 0 0 0 12Z'')] [],
           El ''path'' [(''fillRule'', ''evenodd''), (''d'', ''M12 1.25a.75.75 0 0 1 .75.75v1.5a.75.75 0 0 1-1.5 0V2A.75.75 0 0 1 12 1.'' @
          ''25Zm0 17.5a.75.75 0 0 1 .75.75v1.5a.75.75 0 0 1-1.5 0V19.5a.75.75 0 0 1 '' @
          ''.75-.75ZM4.397 4.397a.75.75 0 0 1 1.06 0l1.062 1.061a.75.75 0 0 1-1.06 1'' @
          ''.06L4.397 5.458a.75.75 0 0 1 0-1.06Zm12.084 12.084a.75.75 0 0 1 1.06 0l1'' @
          ''.062 1.061a.75.75 0 0 1-1.06 1.06l-1.062-1.06a.75.75 0 0 1 0-1.061ZM1.25'' @
          '' 12a.75.75 0 0 1 .75-.75h1.5a.75.75 0 0 1 0 1.5H2A.75.75 0 0 1 1.25 12Zm'' @
          ''17.5 0a.75.75 0 0 1 .75-.75h1.5a.75.75 0 0 1 0 1.5H19.5a.75.75 0 0 1-.75'' @
          ''-.75ZM5.458 18.543a.75.75 0 0 1 0-1.061l1.061-1.062a.75.75 0 0 1 1.06 1.'' @
          ''06L6.52 18.543a.75.75 0 0 1-1.06 0Zm12.084-12.084a.75.75 0 0 1 0-1.06l1.'' @
          ''061-1.062a.75.75 0 1 1 1.06 1.06l-1.06 1.062a.75.75 0 0 1-1.061 0Z''),
                        (''clipRule'', ''evenodd'')] []]
      | Warm \<Rightarrow> svg True [circle ''5'']
      | Mild \<Rightarrow> svg False [circle ''5'']
      | Cool \<Rightarrow> svg False [El ''path'' [(''d'', ''M12 3v18M3 12h18M5.6 5.6l12.8 12.8M18.4 5.6 5.6 18.4'')] []]
      | Cold \<Rightarrow> svg False [El ''path'' [(''d'', ''M12 2v20m6-10H6m9 7.5L6 12l9-7.5'')] []]
      | Na \<Rightarrow> svg False [circle ''9'', El ''path'' [(''d'', ''M8 12h8'')] []])"

definition badge_class :: "tier \<Rightarrow> string" where
  "badge_class t =
     cn [''inline-flex items-center gap-1 px-2 py-0.5 rounded-full bg-black/5 dark:bg-white/10 backdrop-blur-sm'',
         if t = Hot then ''text-amber-700 dark:text-amber-300'' else [],
         if t = Warm then ''text-amber-600 dark:text-amber-300'' else [],
         if t = Mild then ''text-emerald-600 dark:text-emerald-300'' else [],
         if t = Cool then ''text-slate-600 dark:text-slate-300'' else [],
         if t = Cold then ''text-sky-600 dark:text-sky-300'' else []]"

definition card_view :: "card_props \<Rightarrow> vnode" where
  "card_view p =
     (let t = tier_of (p_temp p) in
      El ''Card'' [(''aria-label'', card_label p)]
       [El ''div'' [] [],
        El ''CardHeader'' []
          [El ''div'' []
             [El ''CardTitle'' []
                [El ''span'' (js_attr ''title'' (p_city p)) (js_child (p_city p)),
                 El ''span'' [] (js_child (p_country p))],
              El ''div'' []
                [El ''span'' [(''className'', badge_class t)] [El ''span'' [] [], Txt (tier_name t)]]],
           El ''div'' [] [El ''div'' [] [], icon_view t]],
        El ''CardContent'' []
          [El ''div'' []
             [El ''div'' []
                [El ''div'' [] [El ''div'' [] [El ''span'' [] [Txt (temp_text (p_temp p))]]],
                 El ''div'' []
                   [El ''span'' [] [Txt ''Feels like '', El ''span'' [] [Txt (temp_text (p_feels_like p))]],
                    El ''span'' [] [Txt ''Delta '', El ''span'' [] [Txt (delta_text (p_temp p) (p_feels_like p))]]]],
              El ''div'' []
                [El ''span'' [] [Txt ''Updated just now''],
                 El ''button'' [(''type'', ''button''), (''aria-label'', ''Refresh weather'')] [Txt ''Refresh'']]]]])"

section \<open>App\<close>

definition skeleton_view :: vnode where
  "skeleton_view =
     El ''div'' [] [El ''div'' []
       [El ''div'' [] [El ''div'' [] [El ''div'' [] [], El ''div'' [] []], El ''div'' [] []],
        El ''div'' [] [El ''div'' [] [], El ''div'' [] [El ''div'' [] [], El ''div'' [] []]],
        El ''div'' [] []]]"

definition hint_text :: string where
  "hint_text = ''Enter a city above to get the latest weather.''"

definition hint_node :: vnode where
  "hint_node = El ''div'' [] [Txt hint_text]"

definition footer_text :: string where
  "footer_text = ''Data provided by OpenWeatherMap '' @ [CHR 0xE2, CHR 0x80, CHR 0xA2] @
                 '' Built with Vite + React + Tailwind''"

definition toggle_label :: "bool \<Rightarrow> string" where
  "toggle_label dark = (if dark then ''Switch to light mode'' else ''Switch to dark mode'')"

definition app_view :: "search_state \<Rightarrow> string \<Rightarrow> bool \<Rightarrow> vnode" where
  "app_view s query dark =
     El ''div'' []
       [El ''div'' []
          ([El ''header'' []
              [El ''h1'' [] [Txt ''Weather Insight''],
               El ''p'' [] [Txt (''Search any city to view current temperature and how it really feels. '' @
                                 ''Powered by OpenWeatherMap.'')],
               search_form_view query (loading s)]] @
           (case error s of
              Some m \<Rightarrow> if m \<noteq> [] then [El ''div'' [] [error_message_view m]] else [Txt []]
            | None \<Rightarrow> []) @
           [El ''main'' []
              ((if loading s then [skeleton_view] else []) @
               (case data s of
                  Some d \<Rightarrow> if \<not> loading s then [El ''div'' [] [card_view (card_defaults (card_of d))]] else []
                | None \<Rightarrow> []) @
               (if \<not> loading s \<and> data s = None \<and> (error s = None \<or> error s = Some [])
                then [hint_node] else [])),
            El ''footer'' [] [El ''span'' [] [Txt footer_text]]]),
        El ''button'' [(''type'', ''button''), (''aria-label'', toggle_label dark)]
          [El ''span'' [] [if dark then El ''Sun'' [] [] else El ''Moon'' [] []],
           El ''span'' [] [Txt (if dark then ''Light mode'' else ''Dark mode'')]]]"

section \<open>Lemmas\<close>

lemma has_label_El [simp]:
  "has_label l (El t a cs) \<longleftrightarrow> (''aria-label'', l) \<in> set a \<or> (\<exists>c\<in>set cs. has_label l c)"
  by (auto simp: has_label_def list_ex_iff)

lemma has_label_Txt [simp]: "\<not> has_label l (Txt s)"
  by (simp add: has_label_def)

lemma card_label_not_toggle: "card_label p \<noteq> ''Switch to light mode'' \<and> card_label p \<noteq> ''Switch to dark mode''"
  by (simp add: card_label_def)

lemma icon_view_labels: "\<not> has_label l (icon_view t)"
  by (cases t) (simp_all add: icon_view_def)

lemma card_view_labels:
  "\<not> has_label ''Switch to light mode'' (card_view p) \<and> \<not> has_label ''Switch to dark mode'' (card_view p)"
  using icon_view_labels [of _ "tier_of (p_temp p)"] card_label_not_toggle [of p]
  by (auto simp: card_view_def Let_def js_attr_def js_child_def split: jsfield.splits)

lemma part_view_labels:
  "\<not> has_label l (search_form_view q b)" "\<not> has_label l (error_message_view m)"
  "\<not> has_label l skeleton_view" "\<not> has_label l hint_node"
  by (auto simp: search_form_view_def bool_attr_def error_message_view_def skeleton_view_def hint_node_def)

lemmas view_labels = part_view_labels card_view_labels

lemma app_view_label_light:
  "has_label ''Switch to light mode'' (app_view s q d) \<longleftrightarrow> d"
  by (cases "loading s"; cases "data s"; cases "error s")
     (simp_all add: app_view_def toggle_label_def view_labels)

lemma app_view_label_dark:
  "has_label ''Switch to dark mode'' (app_view s q d) \<longleftrightarrow> \<not> d"
  by (cases "loading s"; cases "data s"; cases "error s")
     (simp_all add: app_view_def toggle_label_def view_labels)

end
