(* ===== verification/Page.thy ===== *)
theory Page
  imports View DarkMode
begin

text \<open>
  The whole page of \<^verbatim>\<open>App.tsx\<close>: the weather hook, the App state \<open>country\<close> that
  holds the text of the search box (line 12, here \<open>pg_input\<close>), and the theme hook
  (line 13), mounted once and never unmounted. \<open>page_step\<close> is every event the page
  reacts to, each with the guard the code gives it: typing, allowed only while the input
  is enabled (SearchForm line 33, \<open>disabled={loading}\<close>); submitting the form, allowed
  only while the button is enabled (SearchForm lines 19 to 22 and 37, App lines 15 to 17);
  the settling of a pending request; a click on the theme button (App line 90); and a
  change of the system colour scheme. \<open>page_view\<close> is what the page renders (theory
  \<open>View\<close>). The lemmas project a run of the page onto a run of \<open>app_step\<close> and of
  \<open>theme_step\<close>, so the invariants of \<open>App\<close> and \<open>DarkMode\<close> carry over, and show
  the properties that need the parts together: the theme button's label matches the root
  class, and the page can always search again. The end-to-end run of a search over the
  page is in the root theory.
\<close>

section \<open>Definitions\<close>

record page =
  pg_hook :: hook_sys
  pg_input :: string
  pg_theme :: dm_state

definition init_page :: "dm_state \<Rightarrow> page" where
  "init_page dm = \<lparr>pg_hook = init_sys, pg_input = [], pg_theme = mount dm\<rparr>"

inductive page_step :: "string option \<Rightarrow> page \<Rightarrow> page \<Rightarrow> bool" for key where
  type_text: "\<not> loading (hs_state (pg_hook p)) \<Longrightarrow> page_step key p (p\<lparr>pg_input := v\<rparr>)"
| submit_form: "submit_enabled (hs_state (pg_hook p)) (pg_input p) \<Longrightarrow>
    page_step key p (p\<lparr>pg_hook := handleSearch key (pg_input p) (pg_hook p)\<rparr>)"
| network: "settle_step (pg_hook p) h' \<Longrightarrow> page_step key p (p\<lparr>pg_hook := h'\<rparr>)"
| toggle_theme: "page_step key p (p\<lparr>pg_theme := toggle (pg_theme p)\<rparr>)"
| system_theme: "page_step key p (p\<lparr>pg_theme := on_system_change m (pg_theme p)\<rparr>)"

definition page_view :: "page \<Rightarrow> vnode" where
  "page_view p = app_view (hs_state (pg_hook p)) (pg_input p) (is_dark (pg_theme p))"

text \<open>The page after the spec's London scenario (section 8), on a fresh light page.\<close>

definition london_page :: page where
  "london_page =
     (let p1 = (init_page (dm_state.make False False Map.empty False False False False False))
                 \<lparr>pg_input := ''London''\<rparr>;
          p2 = p1\<lparr>pg_hook := handleSearch (Some ''key'') (pg_input p1) (pg_hook p1)\<rparr>;
          p3 = p2\<lparr>pg_hook := settle_call 0 (FetchResolved 200 (JsonParsed (Val london_stats))) (pg_hook p2)\<rparr>
      in p3\<lparr>pg_hook := settle_call 0 (FetchRejected NonError) (pg_hook p3)\<rparr>)"

section \<open>Lemmas\<close>

lemma page_settle_call: "(page_step key)\<^sup>*\<^sup>* p (p\<lparr>pg_hook := settle_call i out (pg_hook p)\<rparr>)"
proof (cases "hs_calls (pg_hook p) i")
  case None
  then show ?thesis by (simp add: settle_call_def)
next
  case (Some ph)
  then have "settle_step (pg_hook p) (settle_call i out (pg_hook p))" by (simp add: settle_call_step)
  then have "page_step key p (p\<lparr>pg_hook := settle_call i out (pg_hook p)\<rparr>)" by (rule page_step.network)
  then show ?thesis by blast
qed

lemma london_submit_reach:
  "(page_step (Some ''key''))\<^sup>*\<^sup>* (init_page (dm_state.make False False Map.empty False False False False False))
     ((init_page (dm_state.make False False Map.empty False False False False False))
        \<lparr>pg_input := ''London'', pg_hook := handleSearch (Some ''key'') ''London'' init_sys\<rparr>)"
proof -
  let ?p0 = "init_page (dm_state.make False False Map.empty False False False False False)"
  let ?p1 = "?p0\<lparr>pg_input := ''London''\<rparr>"
  have s1: "page_step (Some ''key'') ?p0 ?p1"
    by (rule page_step.type_text) (simp add: init_page_def init_sys_def init_search_def)
  have s2: "page_step (Some ''key'') ?p1 (?p1\<lparr>pg_hook := handleSearch (Some ''key'') (pg_input ?p1) (pg_hook ?p1)\<rparr>)"
    by (rule page_step.submit_form)
       (simp add: init_page_def init_sys_def init_search_def submit_enabled_def js_simps)
  from s1 s2 show ?thesis by (simp add: init_page_def)
qed

lemma london_page_run:
  "(page_step (Some ''key''))\<^sup>*\<^sup>* (init_page (dm_state.make False False Map.empty False False False False False))
     london_page \<and>
   hs_state (pg_hook london_page) =
     \<lparr>loading = False,
      data = Some \<lparr>city = Val ''London'', country = Val ''GB'', temp = Num 15, feels_like = Num 13.9\<rparr>,
      error = None\<rparr> \<and>
   pg_theme london_page = mount (dm_state.make False False Map.empty False False False False False) \<and>
   pg_input london_page = ''London''"
proof -
  let ?dm = "dm_state.make False False Map.empty False False False False False"
  let ?p1 = "(init_page ?dm)\<lparr>pg_input := ''London''\<rparr>"
  let ?p2 = "?p1\<lparr>pg_hook := handleSearch (Some ''key'') (pg_input ?p1) (pg_hook ?p1)\<rparr>"
  let ?p3 = "?p2\<lparr>pg_hook := settle_call 0 (FetchResolved 200 (JsonParsed (Val london_stats))) (pg_hook ?p2)\<rparr>"
  let ?p4 = "?p3\<lparr>pg_hook := settle_call 0 (FetchRejected NonError) (pg_hook ?p3)\<rparr>"
  have r0: "(page_step (Some ''key''))\<^sup>*\<^sup>* (init_page ?dm) ?p2"
    using london_submit_reach by (simp add: init_page_def)
  have r: "(page_step (Some ''key''))\<^sup>*\<^sup>* (init_page ?dm) ?p4"
    using r0 page_settle_call [of "Some ''key''" ?p2] page_settle_call [of "Some ''key''" ?p3]
    by (meson rtranclp_trans)
  have st: "hs_state (pg_hook ?p4) =
     \<lparr>loading = False,
      data = Some \<lparr>city = Val ''London'', country = Val ''GB'', temp = Num 15, feels_like = Num 13.9\<rparr>,
      error = None\<rparr>"
    using london_search_run by (simp add: init_page_def)
  have lp: "london_page = ?p4" by (simp add: london_page_def Let_def)
  show ?thesis unfolding lp using r st by (simp add: init_page_def)
qed

lemma page_step_app:
  "page_step key p p' \<Longrightarrow> pg_hook p' = pg_hook p \<or> app_step key (pg_hook p) (pg_hook p')"
  by (induction rule: page_step.induct) (auto intro: app_step.intros)

lemma page_reach_app:
  "(page_step key)\<^sup>*\<^sup>* (init_page dm) p \<Longrightarrow> (app_step key)\<^sup>*\<^sup>* init_sys (pg_hook p)"
proof (induction rule: rtranclp_induct)
  case base then show ?case by (simp add: init_page_def)
next
  case (step p p')
  then show ?case using page_step_app [OF step.hyps(2)] by (auto intro: rtranclp.rtrancl_into_rtrancl)
qed

lemma mounted_toggle [simp]: "mounted (toggle s) = mounted s"
  by (simp add: theme_defs)

lemma mounted_system [simp]: "mounted (on_system_change m s) = mounted s"
  by (simp add: theme_defs Let_def)

lemma page_step_theme:
  "page_step key p p' \<Longrightarrow> mounted (pg_theme p) \<Longrightarrow>
   pg_theme p' = pg_theme p \<or> theme_step False (pg_theme p) (pg_theme p')"
  by (induction rule: page_step.induct) (auto intro: theme_step.intros)

lemma page_reach_theme:
  assumes "fresh_page dm" and "(page_step key)\<^sup>*\<^sup>* (init_page dm) p"
  shows "(theme_step False)\<^sup>*\<^sup>* dm (pg_theme p) \<and> mounted (pg_theme p)"
  using assms(2)
proof (induction rule: rtranclp_induct)
  case base
  then show ?case using mount_fresh_reach [OF assms(1)] by (simp add: init_page_def mount_def apply_theme_def)
next
  case (step p p')
  have "mounted (pg_theme p')"
    using step.hyps(2) step.IH by (induction rule: page_step.induct) auto
  with step page_step_theme [OF step.hyps(2)] show ?case by (auto intro: rtranclp.rtrancl_into_rtrancl)
qed

text \<open>
  C18. The theme toggle says what it does: in every state of a page loaded fresh, the
  rendered button is labelled "Switch to light mode" exactly when the root element
  carries the dark class, and "Switch to dark mode" exactly when it does not. The label
  is computed from React's \<open>isDark\<close> and the class from the effect; they agree because
  the effect runs on every change of \<open>isDark\<close> (the invariant of \<open>DarkMode\<close>).
\<close>

theorem page_toggle_label:
  assumes "fresh_page dm" and "(page_step key)\<^sup>*\<^sup>* (init_page dm) p"
  shows "(has_label ''Switch to light mode'' (page_view p) \<longleftrightarrow> root_dark (pg_theme p)) \<and>
         (has_label ''Switch to dark mode'' (page_view p) \<longleftrightarrow> \<not> root_dark (pg_theme p))"
proof -
  from page_reach_theme [OF assms] have r: "(theme_step False)\<^sup>*\<^sup>* dm (pg_theme p)"
    and m: "mounted (pg_theme p)" by auto
  from theme_reachable_inv [OF r assms(1)] m have "root_dark (pg_theme p) = is_dark (pg_theme p)"
    by (simp add: theme_inv_def)
  then show ?thesis by (simp add: page_view_def app_view_label_light app_view_label_dark)
qed

theorem page_toggle_label_witness:
  "fresh_page (dm_state.make False False Map.empty False False False False False) \<and>
   (page_step (Some ''key''))\<^sup>*\<^sup>* (init_page (dm_state.make False False Map.empty False False False False False))
     (london_page\<lparr>pg_theme := toggle (pg_theme london_page)\<rparr>) \<and>
   root_dark (pg_theme (london_page\<lparr>pg_theme := toggle (pg_theme london_page)\<rparr>)) \<and>
   has_label ''Switch to light mode'' (page_view (london_page\<lparr>pg_theme := toggle (pg_theme london_page)\<rparr>))"
proof -
  let ?dm = "dm_state.make False False Map.empty False False False False False"
  let ?q = "london_page\<lparr>pg_theme := toggle (pg_theme london_page)\<rparr>"
  have f: "fresh_page ?dm" by (simp add: fresh_page_def dm_state.make_def)
  have r: "(page_step (Some ''key''))\<^sup>*\<^sup>* (init_page ?dm) ?q"
    using london_page_run page_step.toggle_theme [of "Some ''key''" london_page]
    by (blast intro: rtranclp.rtrancl_into_rtrancl)
  have d: "root_dark (pg_theme ?q)"
    using london_page_run
    by (simp add: theme_defs init_is_dark_def dm_state.make_def STORAGE_KEY_def)
  from page_toggle_label [OF f r] f r d show ?thesis by simp
qed

text \<open>
  C14. The page never gets stuck: from every reachable state, whatever the network answers
  to the request in flight (if any), settling it twice and typing any non-blank query is a
  run of the page that ends idle, with nothing pending and the search button enabled.
\<close>

theorem page_can_search_again:
  assumes reach: "(page_step key)\<^sup>*\<^sup>* (init_page dm) p" and q: "js_trim q \<noteq> []"
  shows "let h = pg_hook p; n = hs_next h - 1; h' = settle_call n out2 (settle_call n out1 h)
         in (page_step key)\<^sup>*\<^sup>* p (p\<lparr>pg_hook := h', pg_input := q\<rparr>) \<and>
            submit_enabled (hs_state h') q \<and> hs_calls h' = Map.empty"
proof -
  let ?h = "pg_hook p"
  let ?n = "hs_next ?h - 1"
  let ?h1 = "settle_call ?n out1 ?h"
  let ?h' = "settle_call ?n out2 ?h1"
  have app: "(app_step key)\<^sup>*\<^sup>* init_sys ?h" by (rule page_reach_app [OF reach])
  have inv: "app_inv ?h" by (rule app_reachable_inv [OF app])
  have app': "(app_step key)\<^sup>*\<^sup>* init_sys ?h'"
    using app settle_call_steps [of "app_step key" ?h ?n out1] settle_call_steps [of "app_step key" ?h1 ?n out2]
    by (blast intro: app_step.settle rtranclp_trans)
  have empty: "hs_calls ?h' = Map.empty"
  proof (cases "hs_calls ?h ?n")
    case None
    have "hs_calls ?h = Map.empty"
    proof (rule ext)
      fix i show "hs_calls ?h i = None"
      proof (rule ccontr)
        assume pend: "hs_calls ?h i \<noteq> None"
        from app_reachable_latest [OF app pend] have "i = ?n" by simp
        with pend None show False by simp
      qed
    qed
    then show ?thesis by (simp add: settle_call_def)
  next
    case (Some ph)
    then have "hs_calls ?h = [?n \<mapsto> ph]" by (rule app_inv_single [OF inv])
    then show ?thesis by (rule settle_call_single)
  qed
  have idle: "\<not> loading (hs_state ?h')"
    using app_reachable_inv [OF app'] empty by (simp add: app_inv_def)
  have r1: "(page_step key)\<^sup>*\<^sup>* p (p\<lparr>pg_hook := ?h1\<rparr>)" by (rule page_settle_call)
  have r2: "(page_step key)\<^sup>*\<^sup>* (p\<lparr>pg_hook := ?h1\<rparr>) (p\<lparr>pg_hook := ?h'\<rparr>)"
    using page_settle_call [of key "p\<lparr>pg_hook := ?h1\<rparr>" ?n out2] by simp
  have r3: "page_step key (p\<lparr>pg_hook := ?h'\<rparr>) (p\<lparr>pg_hook := ?h', pg_input := q\<rparr>)"
    using page_step.type_text [of "p\<lparr>pg_hook := ?h'\<rparr>" key q] idle by simp
  from r1 r2 r3 have "(page_step key)\<^sup>*\<^sup>* p (p\<lparr>pg_hook := ?h', pg_input := q\<rparr>)"
    by (meson rtranclp.rtrancl_into_rtrancl rtranclp_trans)
  with idle q empty show ?thesis by (simp add: Let_def submit_enabled_def)
qed


theorem page_can_search_again_witness:
  "let p = (init_page (dm_state.make False False Map.empty False False False False False))
             \<lparr>pg_input := ''London'', pg_hook := handleSearch (Some ''key'') ''London'' init_sys\<rparr>;
       h = pg_hook p; n = hs_next h - 1;
       h' = settle_call n (FetchResolved 200 (JsonRejected NonError))
              (settle_call n (FetchResolved 200 (JsonParsed (Val london_stats))) h)
   in (page_step (Some ''key''))\<^sup>*\<^sup>* (init_page (dm_state.make False False Map.empty False False False False False)) p \<and>
      js_trim ''Paris'' \<noteq> [] \<and> loading (hs_state h) \<and>
      (page_step (Some ''key''))\<^sup>*\<^sup>* p (p\<lparr>pg_hook := h', pg_input := ''Paris''\<rparr>) \<and>
      submit_enabled (hs_state h') ''Paris'' \<and> hs_calls h' = Map.empty"
proof -
  let ?p = "(init_page (dm_state.make False False Map.empty False False False False False))
             \<lparr>pg_input := ''London'', pg_hook := handleSearch (Some ''key'') ''London'' init_sys\<rparr>"
  have q: "js_trim ''Paris'' \<noteq> []" by (simp add: js_simps)
  have l: "loading (hs_state (pg_hook ?p))"
    by (simp add: handleSearch_def submit_def init_sys_def init_search_def start_search_def
        city_missing_def js_simps)
  show ?thesis
    using page_can_search_again [OF london_submit_reach q, of "FetchResolved 200 (JsonRejected NonError)"
        "FetchResolved 200 (JsonParsed (Val london_stats))"] london_submit_reach q l
    by (simp add: Let_def)
qed

end
