(* ===== verification/Spec2Isabelle.thy ===== *)
theory Spec2Isabelle
  imports App DarkMode WeatherCard SearchSpec View Page
begin

text \<open>
  Verification development of weatherInfo, a single-page weather lookup written in
  TypeScript and React. A user types a city; the page asks OpenWeatherMap for the current
  weather, converts the temperatures from Kelvin and shows a card; a button switches a
  dark theme that is kept in local storage.

  \<^bold>\<open>Parts of the program and where they are modelled.\<close>
  \<^item> \<^verbatim>\<open>hooks/useweatherInfo.ts\<close> holds the core. Its \<open>toCelsius\<close> (line 4) is
    theory \<open>UnitConverter\<close>. The request and response handling inside
    \<open>fetchWeatherData\<close> (lines 12 to 47) is theory \<open>WeatherClient\<close>: the input check,
    the API-key check, the URL, \<open>response.ok\<close>, the status messages and the
    normalisation of the provider's answer (\<open>process_stats\<close>). The hook's React state
    and the async function itself are theory \<open>SearchState\<close>. The function is split at
    its two \<open>await\<close>s into \<open>start_search\<close>, \<open>resume_fetch\<close> and \<open>resume_json\<close>.
    \<open>fetchWeatherData\<close> runs them back to back, and \<open>hook_step\<close> is an inductive step
    relation in which calls interleave as the event loop allows.
  \<^item> The JavaScript built-ins the code calls are in \<open>Prelude\<close> (numbers with
    \<open>NaN\<close>, \<open>Math.round\<close>, \<open>String\<close> of an integer) and \<open>JS_String\<close>
    (\<open>String.prototype.trim\<close> and \<open>encodeURIComponent\<close> over UTF-8 byte strings).
  \<^item> Theory \<open>SearchSpec\<close> is written from the spec, not the code. It holds the
    contract of spec sections 4.2, 4.3 and 7: the error taxonomy (\<open>err_kind\<close>), the
    results allowed for each network outcome (\<open>weather_spec\<close>), and the state each
    result must leave (\<open>search_spec\<close>).
  \<^item> \<^verbatim>\<open>App.tsx\<close> with \<^verbatim>\<open>components/SearchForm.tsx\<close> is theory \<open>App\<close>. It holds
    \<open>handleSearch\<close> and the disabled guard of the submit button, which give the
    relation \<open>app_step\<close>, and the panels \<open>main\<close> renders (\<open>app_panels\<close>).
  \<^item> \<^verbatim>\<open>components/WeatherCard.tsx\<close> is theory \<open>WeatherCard\<close>: the prop defaults, the
    tier with its \<open>linorder\<close> instance, the icon colour, and the rounded texts.
  \<^item> Theory \<open>View\<close> renders \<^verbatim>\<open>ErrorMessage.tsx\<close>, the form of
    \<^verbatim>\<open>SearchForm.tsx\<close>, the card of \<^verbatim>\<open>WeatherCard.tsx\<close> and the page of
    \<^verbatim>\<open>App.tsx\<close> as a tree of elements and text (\<open>vnode\<close>). The tree keeps the tags,
    the attributes that carry meaning, and the class names that depend on state.
  \<^item> Theory \<open>Page\<close> composes the whole App: the weather hook, the text of the search
    box and the theme hook. The relation \<open>page_step\<close> holds every event with its guard
    from the code, and \<open>page_view\<close> is what the page renders.
  \<^item> \<^verbatim>\<open>hooks/useDarkMode.ts\<close> is theory \<open>DarkMode\<close>. A record \<open>dm_state\<close> holds
    the React state, the root element's class, local storage (which may throw), the
    system preference and the listener. The initialiser, the two effects, \<open>toggle\<close> and
    the listener are operations, and \<open>theme_step\<close> lets them happen in any order.
  The components meet at defined points. \<open>SearchState\<close> uses \<open>WeatherClient\<close>, which
  uses \<open>UnitConverter\<close> and \<open>JS_String\<close>. \<open>App\<close> restricts \<open>SearchState\<close>'s
  \<open>submit\<close> by the form's guard and shares its \<open>settle_step\<close> rules. \<open>WeatherCard\<close>
  reads the stored \<open>simpleWeather\<close> through \<open>card_of\<close>. \<open>DarkMode\<close> is independent of
  the search; \<open>Page\<close> puts both together, and a run of the page projects onto a run of
  \<open>app_step\<close> and one of \<open>theme_step\<close>, so their invariants carry over.

  \<^bold>\<open>What is proved.\<close> Claims are numbered by importance.
  \<^item> Across components (C1, here): from any reachable idle page, a search of any
    non-blank city with a key set sends the request for the trimmed city; a 2xx answer
    with a well-shaped body then leaves the page idle with exactly the converted record,
    only the card shown, and the card's label, temperature and delta texts computed from
    the provider's values.
  \<^item> \<open>SearchState\<close>: "exactly one of error and data" when a call resolves (C2). One
    claim per branch of \<open>fetchWeatherData\<close>: success (C5), HTTP error (C6), blank city
    (C8), missing key (C9), transport error (C10), and malformed bodies (C21, C22).
    Without the App's guard, overlapping calls leave \<open>loading\<close> false while a request is
    pending, and then the error of one call beside the data of another (C19).
  \<^item> \<open>SearchSpec\<close>: \<open>fetchWeatherData\<close> refines the spec's contract, with every
    message its error kind's, exactly when the provider's body is well-shaped or rejected.
    A 2xx body that lacks a field inside \<open>sys\<close> or \<open>main\<close> is stored as a success
    where the contract requires an \<open>UnknownError\<close> (C4).
  \<^item> \<open>App\<close>: under the form's guard every reachable state is consistent: \<open>loading\<close>
    iff exactly one request is in flight, and never both error and data (C3). Only the
    most recent search can still be settled, so no stale response is ever applied (C11).
    Exactly one panel is shown (C12). A pending request returns the page to idle within
    two settlements (C13).
  \<^item> \<open>UnitConverter\<close>: \<open>toCelsius\<close> refines the contract "nearest tenth, ties up" (C7).
  \<^item> \<open>DarkMode\<close>: an invariant proved by rule induction: the class follows
    \<open>isDark\<close>, and the storage slot mirrors it while storage works (C15). Toggle behaves
    as specified (C16). The theme survives a reload (C17). The lemma
    \<open>theme_system_change_ignored\<close> shows that the system-preference listener is inert
    after mount, against the spec and the comment of the hook (a finding).
  \<^item> \<open>WeatherClient\<close>: the city round-trips through the request URL (C20).
  \<^item> \<open>WeatherCard\<close>: the displayed whole degrees are within 0.55 of the reading (C23),
    and the lemma \<open>card_double_rounding\<close> shows the bound is reached (a finding). App
    never yields the \<open>na\<close> tier (C24).
  \<^item> \<open>Page\<close> and \<open>View\<close>: the page never gets stuck: whatever the network answers, two
    settlements and typing a query lead to an idle page with the search button enabled
    (C14). The theme button's label matches the root class in every reachable page (C18).

  \<^bold>\<open>Modelling choices and what is left out.\<close> JavaScript numbers are exact reals
  or \<open>NaN\<close>, not IEEE doubles. Infinities do not arise, because the program divides
  only by 10. The model agrees with the browser wherever the decimal inputs and results
  are represented closely enough that rounding does not cross a tie; this holds for
  the spec's examples. Strings are UTF-8 byte strings. The provider's answer may lack
  any field or have it \<open>null\<close>, but a field of another JSON type is not modelled.
  TypeError texts are those of V8. No definition uses fuel or a partial function:
  every loop (\<open>strip_lead\<close>, \<open>show_nat\<close>, the URL decoder) is a terminating
  \<^theory_text>\<open>function\<close> or \<^theory_text>\<open>fun\<close>. A pending call needs at most two settlements
  (C13). The views are modelled as element trees without the class names that only style
  them; the card's Refresh button is rendered, and it has no handler in the code. Not
  modelled: the styling itself (CSS classes, animation, layout), the UI library's
  components beyond their names (\<open>Alert\<close>, \<open>Card\<close>, \<open>Button\<close>, \<open>Input\<close>), React
  StrictMode's double effects in development builds, and a browser without
  \<open>window.matchMedia\<close>.
\<close>

text \<open>
  C1. A search runs end to end. From any page reachable under a key, with no request in
  flight and a query that is not blank: submitting requests the provider for the trimmed
  query with the key. Whenever that request answers with a 2xx status and a body with
  name, country and both temperatures, the page reaches the state that stores exactly
  the record with the name, the country and the two converted temperatures, with no
  error and nothing loading or pending, and shows only the card. The card is labelled with
  the city and country and shows the rounded temperature and the rounded difference
  between feels-like and temperature.
\<close>

theorem search_end_to_end:
  assumes reach: "(page_step (Some k))\<^sup>*\<^sup>* (init_page dm) p"
    and idle: "hs_calls (pg_hook p) = Map.empty"
    and query: "js_trim (pg_input p) \<noteq> []" and key: "k \<noteq> []" and ok: "response_ok st"
  shows "let i = hs_next (pg_hook p);
             h1 = handleSearch (Some k) (pg_input p) (pg_hook p);
             body = \<lparr>stats_name = Val n, stats_sys = Val \<lparr>sys_country = Val co\<rparr>,
                     stats_main = Val \<lparr>main_temp = Val t, main_feels_like = Val f\<rparr>\<rparr>;
             h3 = settle_call i out (settle_call i (FetchResolved st (JsonParsed (Val body))) h1);
             d = \<lparr>city = Val n, country = Val co, temp = toCelsius (Num t), feels_like = toCelsius (Num f)\<rparr>
         in hs_calls h1 i = Some (AwaitFetch (request_url (js_trim (pg_input p)) k)) \<and>
            (page_step (Some k))\<^sup>*\<^sup>* p (p\<lparr>pg_hook := h3\<rparr>) \<and>
            hs_state h3 = \<lparr>loading = False, data = Some d, error = None\<rparr> \<and>
            hs_calls h3 = Map.empty \<and> app_panels (hs_state h3) = [Card d] \<and>
            card_label (card_defaults (card_of d)) =
              ''Weather summary for '' @ n @ (if co = [] then [] else '', '' @ co) \<and>
            temp_text (p_temp (card_defaults (card_of d))) = round_text (toCelsius (Num t)) @ degree @ ''C'' \<and>
            delta_text (p_temp (card_defaults (card_of d))) (p_feels_like (card_defaults (card_of d))) =
              round_text (js_sub (toCelsius (Num f)) (toCelsius (Num t))) @ degree"
proof -
  let ?h = "pg_hook p"
  let ?i = "hs_next ?h"
  let ?url = "request_url (js_trim (pg_input p)) k"
  let ?h1 = "handleSearch (Some k) (pg_input p) ?h"
  let ?body = "\<lparr>stats_name = Val n, stats_sys = Val \<lparr>sys_country = Val co\<rparr>,
                stats_main = Val \<lparr>main_temp = Val t, main_feels_like = Val f\<rparr>\<rparr>"
  let ?h2 = "settle_call ?i (FetchResolved st (JsonParsed (Val ?body))) ?h1"
  let ?h3 = "settle_call ?i out ?h2"
  let ?d = "\<lparr>city = Val n, country = Val co, temp = toCelsius (Num t), feels_like = toCelsius (Num f)\<rparr>"
  have inv: "app_inv ?h" by (rule app_reachable_inv [OF page_reach_app [OF reach]])
  with idle have nl: "\<not> loading (hs_state ?h)" by (simp add: app_inv_def)
  with query have en: "submit_enabled (hs_state ?h) (pg_input p)" by (simp add: submit_enabled_def)
  have nm: "\<not> city_missing (js_trim (pg_input p))" by (rule handleSearch_enabled [OF en])
  have h1: "hs_state ?h1 = \<lparr>loading = True, data = None, error = None\<rparr>"
    "hs_calls ?h1 = [?i \<mapsto> AwaitFetch ?url]"
    using nm key idle by (simp_all add: handleSearch_def submit_def start_search_request)
  have h2: "hs_state ?h2 = \<lparr>loading = True, data = None, error = None\<rparr>"
    "hs_calls ?h2 = [?i \<mapsto> AwaitJson (JsonParsed (Val ?body))]"
    using h1 ok by (simp_all add: settle_call_def resume_fetch_def)
  have h3: "hs_state ?h3 = \<lparr>loading = False, data = Some ?d, error = None\<rparr>" "hs_calls ?h3 = Map.empty"
    using h2 by (simp_all add: settle_call_def resume_json_def process_stats_Val to_number_def)
  have r1: "page_step (Some k) p (p\<lparr>pg_hook := ?h1\<rparr>)" using en by (rule page_step.submit_form)
  have r2: "(page_step (Some k))\<^sup>*\<^sup>* (p\<lparr>pg_hook := ?h1\<rparr>) (p\<lparr>pg_hook := ?h3\<rparr>)"
    using page_settle_call [of "Some k" "p\<lparr>pg_hook := ?h1\<rparr>" ?i "FetchResolved st (JsonParsed (Val ?body))"]
      page_settle_call [of "Some k" "p\<lparr>pg_hook := ?h2\<rparr>" ?i out]
    by (simp add: rtranclp_trans)
  have panels: "app_panels (hs_state ?h3) = [Card ?d]"
    using h3 by (simp add: app_panels_def error_panel_def)
  have card: "card_label (card_defaults (card_of ?d)) =
                ''Weather summary for '' @ n @ (if co = [] then [] else '', '' @ co)"
    "temp_text (p_temp (card_defaults (card_of ?d))) = round_text (toCelsius (Num t)) @ degree @ ''C''"
    "delta_text (p_temp (card_defaults (card_of ?d))) (p_feels_like (card_defaults (card_of ?d))) =
       round_text (js_sub (toCelsius (Num f)) (toCelsius (Num t))) @ degree"
    by (simp_all add: card_of_def card_defaults_def with_default_def card_label_def js_text_def
        temp_text_def delta_text_def)
  show ?thesis
    using h1 h3 r1 r2 panels card by (simp add: Let_def converse_rtranclp_into_rtranclp)
qed

theorem search_end_to_end_witness:
  "let p = (init_page (dm_state.make False False Map.empty False False False False False))\<lparr>pg_input := ''London''\<rparr>;
       h1 = handleSearch (Some ''key'') ''London'' init_sys;
       h3 = settle_call 0 (FetchRejected NonError) (settle_call 0 (FetchResolved 200 (JsonParsed (Val london_stats))) h1);
       d = \<lparr>city = Val ''London'', country = Val ''GB'', temp = Num 15, feels_like = Num 13.9\<rparr>
   in (page_step (Some ''key''))\<^sup>*\<^sup>* (init_page (dm_state.make False False Map.empty False False False False False)) p \<and>
      hs_calls (pg_hook p) = Map.empty \<and> js_trim (pg_input p) = ''London'' \<and> response_ok 200 \<and>
      hs_calls h1 0 = Some (AwaitFetch ''https://api.openweathermap.org/data/2.5/weather?q=London&APPID=key'') \<and>
      (page_step (Some ''key''))\<^sup>*\<^sup>* p (p\<lparr>pg_hook := h3\<rparr>) \<and>
      hs_state h3 = \<lparr>loading = False, data = Some d, error = None\<rparr> \<and>
      app_panels (hs_state h3) = [Card d] \<and>
      card_label (card_defaults (card_of d)) = ''Weather summary for London, GB'' \<and>
      temp_text (p_temp (card_defaults (card_of d))) = ''15'' @ degree @ ''C'' \<and>
      delta_text (p_temp (card_defaults (card_of d))) (p_feels_like (card_defaults (card_of d))) = ''-1'' @ degree"
proof -
  let ?dm = "dm_state.make False False Map.empty False False False False False"
  let ?p = "(init_page ?dm)\<lparr>pg_input := ''London''\<rparr>"
  have reach: "(page_step (Some ''key''))\<^sup>*\<^sup>* (init_page ?dm) ?p"
    by (rule r_into_rtranclp, rule page_step.type_text) (simp add: init_page_def init_sys_def init_search_def)
  have idle: "hs_calls (pg_hook ?p) = Map.empty" by (simp add: init_page_def init_sys_def)
  have q: "js_trim (pg_input ?p) = ''London''" by (simp add: js_simps)
  have ok: "response_ok 200" by (simp add: response_ok_def)
  have url: "encodeURIComponent ''London'' = ''London''" by (simp add: js_simps Let_def)
  have conv: "toCelsius (Num (5763 / 20)) = Num 15" "toCelsius (Num 287) = Num 13.9"
    by (simp_all add: toCelsius_def js_round_def)
  have "let i = hs_next (pg_hook ?p);
            h1 = handleSearch (Some ''key'') (pg_input ?p) (pg_hook ?p);
            body = \<lparr>stats_name = Val ''London'', stats_sys = Val \<lparr>sys_country = Val ''GB''\<rparr>,
                    stats_main = Val \<lparr>main_temp = Val 288.15, main_feels_like = Val 287\<rparr>\<rparr>;
            h3 = settle_call i (FetchRejected NonError) (settle_call i (FetchResolved 200 (JsonParsed (Val body))) h1);
            d = \<lparr>city = Val ''London'', country = Val ''GB'', temp = toCelsius (Num 288.15),
                 feels_like = toCelsius (Num 287)\<rparr>
        in hs_calls h1 i = Some (AwaitFetch (request_url (js_trim (pg_input ?p)) ''key'')) \<and>
           (page_step (Some ''key''))\<^sup>*\<^sup>* ?p (?p\<lparr>pg_hook := h3\<rparr>) \<and>
           hs_state h3 = \<lparr>loading = False, data = Some d, error = None\<rparr> \<and>
           hs_calls h3 = Map.empty \<and> app_panels (hs_state h3) = [Card d] \<and>
           card_label (card_defaults (card_of d)) =
             ''Weather summary for '' @ ''London'' @ (if ''GB'' = [] then [] else '', '' @ ''GB'') \<and>
           temp_text (p_temp (card_defaults (card_of d))) = round_text (toCelsius (Num 288.15)) @ degree @ ''C'' \<and>
           delta_text (p_temp (card_defaults (card_of d))) (p_feels_like (card_defaults (card_of d))) =
             round_text (js_sub (toCelsius (Num 287)) (toCelsius (Num 288.15))) @ degree"
    by (rule search_end_to_end [OF reach idle]) (simp_all add: js_simps ok)
  then show ?thesis
    using reach idle q ok london_card
    by (simp add: Let_def conv url london_stats_def init_page_def init_sys_def request_url_def
        app_panels_def error_panel_def)
qed

end
